theory Spec2Isabelle
  imports Main "HOL-Library.Word" "HOL-Library.Sublist"
begin

section \<open>JavaScript strings\<close>

text \<open>
  A JavaScript string is a sequence of UTF-16 code units. String literals of the source are
  ASCII only; \<open>ustr\<close> turns an ASCII literal into its code units.
\<close>

type_synonym jsstring = "16 word list"

definition ustr :: "string \<Rightarrow> jsstring" where
  "ustr s = map of_char s"

text \<open>
  \<open>String.prototype.trim\<close> removes, at both ends, the code units that ECMAScript calls
  WhiteSpace (TAB, VT, FF, ZWNBSP and the Unicode space separators) or LineTerminator
  (LF, CR, LS, PS).
\<close>

definition isWhiteSpace :: "16 word \<Rightarrow> bool" where
  "isWhiteSpace c \<longleftrightarrow>
     c \<in> {0x0009, 0x000A, 0x000B, 0x000C, 0x000D, 0x0020, 0x00A0, 0x1680,
          0x2028, 0x2029, 0x202F, 0x205F, 0x3000, 0xFEFF}
     \<or> (0x2000 \<le> c \<and> c \<le> 0x200A)"

definition trim :: "jsstring \<Rightarrow> jsstring" where
  "trim s = rev (dropWhile isWhiteSpace (rev (dropWhile isWhiteSpace s)))"

text \<open>
  \<open>parseInt(s, 10)\<close>: leading white space is skipped, one sign is read, then the longest
  run of decimal digits; no digit gives NaN, which is \<open>None\<close> here. The source only compares
  the result with 0 and with an array length and returns it when it lies between them, so the
  rounding of huge values to a double never shows and the value is kept as an integer.
\<close>

definition isDigit :: "16 word \<Rightarrow> bool" where
  "isDigit c \<longleftrightarrow> 0x30 \<le> c \<and> c \<le> 0x39"

definition digitsValue :: "jsstring \<Rightarrow> int" where
  "digitsValue Z = foldl (\<lambda>acc c. acc * 10 + (uint c - 48)) 0 Z"

definition parseInt :: "jsstring \<Rightarrow> int option" where
  "parseInt s =
     (let S = dropWhile isWhiteSpace s;
          negative = (case S of [] \<Rightarrow> False | c # _ \<Rightarrow> c = 0x2D);
          S' = (case S of [] \<Rightarrow> [] | c # rest \<Rightarrow> if c = 0x2B \<or> c = 0x2D then rest else S);
          Z = takeWhile isDigit S'
      in if Z = [] then None
         else Some ((if negative then - 1 else 1) * digitsValue Z))"

text \<open>
  \<open>xs.slice(0, end)\<close>: a negative \<open>end\<close> counts from the end of the array, and the result
  is cut at the array's length.
\<close>

definition slice0 :: "'a list \<Rightarrow> int \<Rightarrow> 'a list" where
  "slice0 xs end =
     (let len = int (length xs);
          final = (if end < 0 then max (len + end) 0 else min end len)
      in take (nat final) xs)"

text \<open>\<open>xs[i] ?? null\<close>: reading outside the array gives \<open>undefined\<close>, hence \<open>null\<close>.\<close>

definition index_or_null :: "'a list \<Rightarrow> int \<Rightarrow> 'a option" where
  "index_or_null xs i = (if 0 \<le> i \<and> i < int (length xs) then Some (xs ! nat i) else None)"

section \<open>Data model\<close>

text \<open>The inline data of a part, as the generation capability's interface has it.\<close>

record Blob =
  data :: jsstring
  mimeType :: jsstring

text \<open>\<open>Base64File\<close> of \<open>utils/fileUtils\<close>.\<close>

record Base64File =
  base64 :: jsstring
  mimeType :: jsstring

datatype FitAdjustment = default_fit | tighter | looser

datatype AppMode = tryon | background

text \<open>
  A part of a request or of a response: an object whose \<open>inlineData\<close> and \<open>text\<close> fields (\<open>text'\<close> here)
  may each be absent. The source builds \<open>{ inlineData: ... }\<close> and \<open>{ text: ... }\<close> and,
  in a response, looks for the first part whose \<open>inlineData\<close> is present.
\<close>

record Part =
  inlineData :: "Blob option"
  text' :: "jsstring option"

record Content =
  parts :: "Part list option"

record Candidate =
  content :: "Content option"

record GenerateContentResponse =
  candidates :: "Candidate list option"

datatype Modality = IMAGE

record GenerateContentConfig =
  responseModalities :: "Modality list"

record GenerateContentParameters =
  model :: jsstring
  contents :: Content
  config :: GenerateContentConfig

text \<open>
  What a \<open>throw\<close> carries: an \<open>Error\<close> with its message, or any other value (the remote
  library may reject with anything).
\<close>

datatype thrown = Error jsstring | NonError

text \<open>
  The remote capability \<open>ai.models.generateContent\<close>: for a request it either rejects
  (\<open>Inl\<close>) or resolves with a response (\<open>Inr\<close>).
\<close>

type_synonym remote = "GenerateContentParameters \<Rightarrow> thrown + GenerateContentResponse"

text \<open>The calls a handler makes, in order: to the two client operations and to the remote capability.\<close>

datatype call =
    DressModelCall Base64File Base64File FitAdjustment jsstring
  | ChangeBackgroundCall Base64File jsstring "Base64File option"
  | GenerateContentCall GenerateContentParameters

section \<open>The generation client (\<open>services/geminiService\<close>)\<close>

text \<open>
  \<open>response.candidates?.[0]?.content?.parts?.find(part => part.inlineData)\<close>: every step
  of the chain gives \<open>undefined\<close> when what it reads is absent.
\<close>

definition find_imagePart :: "GenerateContentResponse \<Rightarrow> Part option" where
  "find_imagePart response =
     (case candidates response of
        None \<Rightarrow> None
      | Some cs \<Rightarrow>
          (case cs of
             [] \<Rightarrow> None
           | c # _ \<Rightarrow>
               (case content c of
                  None \<Rightarrow> None
                | Some ct \<Rightarrow>
                    (case parts ct of
                       None \<Rightarrow> None
                     | Some ps \<Rightarrow> find (\<lambda>part. inlineData part \<noteq> None) ps))))"

definition inlinePart :: "Base64File \<Rightarrow> Part" where
  "inlinePart file =
     \<lparr>inlineData = Some \<lparr>data = base64 file, Blob.mimeType = Base64File.mimeType file\<rparr>,
      text' = None\<rparr>"

definition textPart :: "jsstring \<Rightarrow> Part" where
  "textPart prompt = \<lparr>inlineData = None, text' = Some prompt\<rparr>"

subsection \<open>\<open>dressModel\<close>\<close>

text \<open>The three fixed pieces of the template literal of \<open>dressModel\<close>, around its two holes.\<close>

definition dressModel_template_1 :: jsstring where
  \<open>dressModel_template_1 = ustr (
   ''\<newline>'' @
   ''      You are an expert photorealistic virtual stylist. Your primary goal is to create a final image that is indistinguishable from a real photograph.\<newline>'' @
   ''\<newline>'' @
   ''      Your task is to seamlessly dress the person from the first image (the model) with the clothes from the second image (the outfit).\<newline>'' @
   ''\<newline>'' @
   ''      **Core Instructions:**\<newline>'' @
   ''      1.  **Preserve Realism:** The final output **must** look like a real photograph, not an AI generation. Avoid any "airbrushed" or overly smooth AI look.\<newline>'' @
   ''      2.  **Model & Background Integrity:** The person's pose, facial expression, body shape, and skin tone from the first image must be preserved perfectly. Do not alter the model in any way. '')\<close>

definition dressModel_template_2 :: jsstring where
  \<open>dressModel_template_2 = ustr (
   ''\<newline>'' @
   ''      3.  **Outfit Integration:**\<newline>'' @
   ''          *   Identify the complete outfit from the second image.\<newline>'' @
   ''          *   Realistically transfer this outfit onto the person in the first image.\<newline>'' @
   ''          *   **Crucially, the clothing must conform naturally to the person's body and pose.** Pay close attention to how fabric would drape, fold, and crease in reality.\<newline>'' @
   ''          *   '')\<close>

definition dressModel_template_3 :: jsstring where
  \<open>dressModel_template_3 = ustr (
   ''\<newline>'' @
   ''      4.  **Lighting and Shadows:** The lighting on the new clothes (shadows, highlights) must perfectly match the lighting conditions of the original model's photo and the new background (if any). This is key to making the image look real.\<newline>'' @
   ''      5.  **Texture and Detail:** Maintain the original texture and details of the fabric from the clothing image.\<newline>'' @
   ''      6.  **Seamless Edges:** Ensure the edges where the clothing meets the person's skin or the background are clean and perfectly blended.\<newline>'' @
   ''      7.  **Final Output:** The result must be a high-quality, photorealistic image with no added text, watermarks, or any other artifacts.\<newline>'' @
   ''    '')\<close>

text \<open>The instruction text of \<open>dressModel\<close>: \<open>fitInstruction\<close>, \<open>backgroundInstruction\<close>, \<open>prompt\<close>.\<close>

definition dressModel_prompt :: "FitAdjustment \<Rightarrow> jsstring \<Rightarrow> jsstring" where
  \<open>dressModel_prompt fit backgroundPrompt =
     (let fitInstruction =
            (if fit = tighter then
               ustr ''The clothing should be adjusted to have a tighter, more form-fitting appearance on the model.''
             else if fit = looser then
               ustr ''The clothing should be adjusted to have a looser, more relaxed, and comfortable fit on the model.''
             else ustr []);
          backgroundInstruction =
            (if backgroundPrompt \<noteq> [] \<and> length (trim backgroundPrompt) > 0 then
               ustr ''The original background must be replaced with a new one described as: "'' @
               backgroundPrompt @
               ustr ''". The new background should be photorealistic and blend seamlessly with the model.''
             else
               ustr ''The original background from the first image must be preserved perfectly.'')
      in dressModel_template_1 @ backgroundInstruction @ dressModel_template_2 @
         fitInstruction @ dressModel_template_3)\<close>

definition dressModel_request ::
  "Base64File \<Rightarrow> Base64File \<Rightarrow> FitAdjustment \<Rightarrow> jsstring \<Rightarrow> GenerateContentParameters" where
  "dressModel_request modelImage clothingImage fit backgroundPrompt =
     (let modelImagePart = inlinePart modelImage;
          clothingImagePart = inlinePart clothingImage;
          textPart = textPart (dressModel_prompt fit backgroundPrompt)
      in \<lparr>model = ustr ''gemini-2.5-flash-image'',
          contents = \<lparr>parts = Some [modelImagePart, clothingImagePart, textPart]\<rparr>,
          config = \<lparr>responseModalities = [IMAGE]\<rparr>\<rparr>)"

text \<open>
  The body of the \<open>try\<close> block of \<open>dressModel\<close>, then the whole operation: the \<open>catch\<close>
  clause receives whatever the block threw and throws its own error. The second component
  is the list of remote calls made.
\<close>

definition dressModel_try ::
  "remote \<Rightarrow> Base64File \<Rightarrow> Base64File \<Rightarrow> FitAdjustment \<Rightarrow> jsstring \<Rightarrow> thrown + jsstring" where
  "dressModel_try remote modelImage clothingImage fit backgroundPrompt =
     (case remote (dressModel_request modelImage clothingImage fit backgroundPrompt) of
        Inl rejected \<Rightarrow> Inl rejected
      | Inr response \<Rightarrow>
          (case find_imagePart response of
             None \<Rightarrow>
               Inl (Error (ustr ''AI failed to generate an image. Please try again with different images.''))
           | Some imagePart \<Rightarrow>
               (case inlineData imagePart of
                  None \<Rightarrow>
                    Inl (Error (ustr ''AI failed to generate an image. Please try again with different images.''))
                | Some blob \<Rightarrow> Inr (data blob))))"

definition dressModel ::
  "remote \<Rightarrow> Base64File \<Rightarrow> Base64File \<Rightarrow> FitAdjustment \<Rightarrow> jsstring
     \<Rightarrow> (thrown + jsstring) \<times> call list" where
  "dressModel remote modelImage clothingImage fit backgroundPrompt =
     ((case dressModel_try remote modelImage clothingImage fit backgroundPrompt of
         Inl error \<Rightarrow>
           Inl (Error (ustr ''Failed to generate image from AI. The model may have refused to process the request. Check your images and try again.''))
       | Inr generatedImage \<Rightarrow> Inr generatedImage),
      [GenerateContentCall (dressModel_request modelImage clothingImage fit backgroundPrompt)])"

subsection \<open>\<open>changeBackground\<close>\<close>

text \<open>
  The fixed pieces of the two template literals of \<open>changeBackground\<close>: the one used when a
  background image is given, and the one used with a description only.
\<close>

definition changeBackground_image_template_1 :: jsstring where
  \<open>changeBackground_image_template_1 = ustr (
   ''\<newline>'' @
   ''                You are a photorealistic image editing expert. Your goal is to create a final image that is indistinguishable from a real photograph.\<newline>'' @
   ''\<newline>'' @
   ''                Your task is to replace the background of the first image (the source) with the second image (the new background).\<newline>'' @
   ''\<newline>'' @
   ''                **Core Instructions:**\<newline>'' @
   ''                1.  **Preserve Subject:** The main subject (person, object, animal) in the foreground of the source image **must be perfectly preserved**. Do not alter its appearance, pose, lighting, or details in any way.\<newline>'' @
   ''                2.  **Use New Background:** Use the second image as the new background for the subject from the first image.\<newline>'' @
   ''                3.  **Seamless Integration:** The new background must blend seamlessly with the foreground subject. The lighting, shadows, and perspective of the new background must be adjusted to perfectly match the original subject to create a cohesive and realistic final image.\<newline>'' @
   ''                4.  **Additional Instructions:** '')\<close>

definition changeBackground_image_template_2 :: jsstring where
  \<open>changeBackground_image_template_2 = ustr (
   ''\<newline>'' @
   ''                5.  **Clean Edges:** Ensure the edges around the subject are clean and natural, with no "cut-out" or artificial look. Pay special attention to hair or fine details.\<newline>'' @
   ''                6.  **Final Output:** The result must be a high-quality, photorealistic image with no added text, watermarks, or any other artifacts.\<newline>'' @
   ''            '')\<close>

definition changeBackground_text_template_1 :: jsstring where
  \<open>changeBackground_text_template_1 = ustr (
   ''\<newline>'' @
   ''                You are a photorealistic image editing expert. Your goal is to create a final image that is indistinguishable from a real photograph.\<newline>'' @
   ''\<newline>'' @
   ''                Your task is to replace the background of the provided image with a new one based on the user's description, while leaving the foreground subject completely untouched.\<newline>'' @
   ''\<newline>'' @
   ''                **Core Instructions:**\<newline>'' @
   ''                1.  **Preserve Subject:** The main subject (person, object, animal) in the foreground of the image **must be perfectly preserved**. Do not alter its appearance, pose, lighting, or details in any way.\<newline>'' @
   ''                2.  **Identify Background:** Accurately identify and isolate the entire background from the foreground subject.\<newline>'' @
   ''                3.  **Generate New Background:** Generate a new, photorealistic background based on this description: "'')\<close>

definition changeBackground_text_template_2 :: jsstring where
  \<open>changeBackground_text_template_2 = ustr (
   ''".\<newline>'' @
   ''                4.  **Seamless Integration:** The new background must blend seamlessly with the foreground subject. The lighting, shadows, and perspective of the new background must perfectly match the original subject to create a cohesive and realistic final image.\<newline>'' @
   ''                5.  **Clean Edges:** Ensure the edges around the subject are clean and natural, with no "cut-out" or artificial look. Pay special attention to hair or fine details.\<newline>'' @
   ''                6.  **Final Output:** The result must be a high-quality, photorealistic image with no added text, watermarks, or any other artifacts.\<newline>'' @
   ''            '')\<close>

text \<open>
  The part list of \<open>changeBackground\<close>, built by its three \<open>push\<close>es: the source image,
  then the background image when there is one, then the text. \<open>backgroundPrompt ? ... : ...\<close>
  tests the prompt for being non-empty (it is not trimmed there).
\<close>

definition changeBackground_parts ::
  "Base64File \<Rightarrow> jsstring \<Rightarrow> Base64File option \<Rightarrow> Part list" where
  \<open>changeBackground_parts sourceImage backgroundPrompt backgroundImage =
     (let parts0 = [] @ [inlinePart sourceImage];
          (parts1, prompt) =
            (case backgroundImage of
               Some bg \<Rightarrow>
                 (parts0 @ [inlinePart bg],
                  changeBackground_image_template_1 @
                  (if backgroundPrompt \<noteq> [] then
                     ustr ''Follow these additional user instructions for blending: "'' @
                     backgroundPrompt @ ustr ''"''
                   else ustr ''Ensure the composition is natural and believable.'') @
                  changeBackground_image_template_2)
             | None \<Rightarrow>
                 (parts0,
                  changeBackground_text_template_1 @ backgroundPrompt @
                  changeBackground_text_template_2))
      in parts1 @ [textPart prompt])\<close>

definition changeBackground_request ::
  "Base64File \<Rightarrow> jsstring \<Rightarrow> Base64File option \<Rightarrow> GenerateContentParameters" where
  "changeBackground_request sourceImage backgroundPrompt backgroundImage =
     \<lparr>model = ustr ''gemini-2.5-flash-image'',
      contents = \<lparr>parts = Some (changeBackground_parts sourceImage backgroundPrompt backgroundImage)\<rparr>,
      config = \<lparr>responseModalities = [IMAGE]\<rparr>\<rparr>"

definition changeBackground_try ::
  "remote \<Rightarrow> Base64File \<Rightarrow> jsstring \<Rightarrow> Base64File option \<Rightarrow> thrown + jsstring" where
  "changeBackground_try remote sourceImage backgroundPrompt backgroundImage =
     (case remote (changeBackground_request sourceImage backgroundPrompt backgroundImage) of
        Inl rejected \<Rightarrow> Inl rejected
      | Inr response \<Rightarrow>
          (case find_imagePart response of
             None \<Rightarrow>
               Inl (Error (ustr ''AI failed to generate an image. Please try again with a different image or prompt.''))
           | Some imagePart \<Rightarrow>
               (case inlineData imagePart of
                  None \<Rightarrow>
                    Inl (Error (ustr ''AI failed to generate an image. Please try again with a different image or prompt.''))
                | Some blob \<Rightarrow> Inr (data blob))))"

text \<open>The guard of \<open>changeBackground\<close> stands before its \<open>try\<close> block and makes no remote call.\<close>

definition changeBackground ::
  "remote \<Rightarrow> Base64File \<Rightarrow> jsstring \<Rightarrow> Base64File option
     \<Rightarrow> (thrown + jsstring) \<times> call list" where
  "changeBackground remote sourceImage backgroundPrompt backgroundImage =
     (if (backgroundPrompt = [] \<or> length (trim backgroundPrompt) = 0) \<and> backgroundImage = None then
        (Inl (Error (ustr ''A background description or a background image is required.'')), [])
      else
        ((case changeBackground_try remote sourceImage backgroundPrompt backgroundImage of
            Inl error \<Rightarrow>
              Inl (Error (ustr ''Failed to change background from AI. The model may have refused to process the request. Check your image and try again.''))
          | Inr generatedImage \<Rightarrow> Inr generatedImage),
         [GenerateContentCall (changeBackground_request sourceImage backgroundPrompt backgroundImage)]))"

section \<open>The application (\<open>App\<close>)\<close>

definition TRYON_HISTORY_KEY :: jsstring where
  "TRYON_HISTORY_KEY = ustr ''virtual-tryon-history''"

definition TRYON_HISTORY_INDEX_KEY :: jsstring where
  "TRYON_HISTORY_INDEX_KEY = ustr ''virtual-tryon-history-index''"

definition BG_HISTORY_KEY :: jsstring where
  "BG_HISTORY_KEY = ustr ''background-changer-history''"

definition BG_HISTORY_INDEX_KEY :: jsstring where
  "BG_HISTORY_INDEX_KEY = ustr ''background-changer-history-index''"

subsection \<open>\<open>useHistoryState\<close>: the two initialisers\<close>

text \<open>
  \<open>localStorage\<close> is a map from keys to strings; \<open>getItem\<close> of a key that is not there is
  \<open>null\<close>.

  A number of JavaScript is an integer, NaN, or a double that is no integer (a fraction or
  an infinity); the arithmetic of the last kind belongs to the platform.
\<close>

type_synonym storage = "jsstring \<rightharpoonup> jsstring"

typedecl double

datatype number = Integer int | NaN | NonInteger double

text \<open>
  What \<open>JSON.parse\<close> can give: any JSON value, not only the \<open>string[]\<close> that the source
  declares for the history. An object keeps its members in the order of the text; of two
  members with one key the later one counts. \<open>JSON.parse\<close> itself belongs to the platform
  and is a parameter: it either throws (\<open>None\<close>) or gives the parsed value.
\<close>

datatype json =
    JNull
  | JBool bool
  | JNumber number
  | JString jsstring
  | JArray "json list"
  | JObject "(jsstring \<times> json) list"

type_synonym json_parse = "jsstring \<Rightarrow> json option"

text \<open>
  \<open>v.length\<close> for a parsed value \<open>v\<close>: reading a property of \<open>null\<close> throws a TypeError
  (\<open>None\<close>); a boolean, a number and an object without a member \<open>length\<close> have no such
  property (\<open>undefined\<close>); an array and a string have their length; an object with a member
  \<open>length\<close> gives that member, whatever it is. The literal \<open>0\<close> that the source takes
  when nothing is stored is \<open>Length 0\<close>.
\<close>

datatype length_value = Undefined | Length nat | Property json

definition get_length :: "json \<Rightarrow> length_value option" where
  "get_length v =
     (case v of
        JNull \<Rightarrow> None
      | JBool b \<Rightarrow> Some Undefined
      | JNumber n \<Rightarrow> Some Undefined
      | JString s \<Rightarrow> Some (Length (length s))
      | JArray xs \<Rightarrow> Some (Length (length xs))
      | JObject members \<Rightarrow>
          (case map_of (rev members) (ustr ''length'') of
             None \<Rightarrow> Some Undefined
           | Some p \<Rightarrow> Some (Property p)))"

text \<open>
  The three operators that the index initialiser applies to \<open>historyLength\<close>:
  \<open>historyLength === 0\<close>, \<open>savedIndex < historyLength\<close> and \<open>historyLength - 1\<close>. On
  \<open>undefined\<close> they give \<open>false\<close>, \<open>false\<close> and NaN; on a length they are integer
  arithmetic. On the member \<open>length\<close> of a parsed object JavaScript first converts the
  member to a number, by rules that read strings as numerals and compute on doubles: for
  that case the three operators are parameters, \<open>js_ops\<close>.
\<close>

record js_ops =
  strictEqualsZero :: "json \<Rightarrow> bool"
  lessThan :: "int \<Rightarrow> json \<Rightarrow> bool"
  minusOne :: "json \<Rightarrow> number"

definition strict_equals_zero :: "js_ops \<Rightarrow> length_value \<Rightarrow> bool" where
  "strict_equals_zero ops historyLength =
     (case historyLength of
        Undefined \<Rightarrow> False
      | Length n \<Rightarrow> n = 0
      | Property p \<Rightarrow> strictEqualsZero ops p)"

definition less_than :: "js_ops \<Rightarrow> int \<Rightarrow> length_value \<Rightarrow> bool" where
  "less_than ops savedIndex historyLength =
     (case historyLength of
        Undefined \<Rightarrow> False
      | Length n \<Rightarrow> savedIndex < int n
      | Property p \<Rightarrow> lessThan ops savedIndex p)"

definition minus_one :: "js_ops \<Rightarrow> length_value \<Rightarrow> number" where
  "minus_one ops historyLength =
     (case historyLength of
        Undefined \<Rightarrow> NaN
      | Length n \<Rightarrow> Integer (int n - 1)
      | Property p \<Rightarrow> minusOne ops p)"

text \<open>
  The two initialisers. The first returns whatever \<open>JSON.parse\<close> gave; the second reads
  its \<open>length\<close>. The \<open>catch\<close> clauses take the SyntaxError of \<open>JSON.parse\<close> and, in the
  second, the TypeError of \<open>null.length\<close>. The saved index is \<open>parseInt\<close> of the stored
  text, NaN (\<open>None\<close>) when it has no digits, and \<open>-1\<close> when nothing is stored.
\<close>

definition useHistoryState_history :: "json_parse \<Rightarrow> storage \<Rightarrow> jsstring \<Rightarrow> json" where
  "useHistoryState_history JSON_parse localStorage historyKey =
     (case localStorage historyKey of
        None \<Rightarrow> JArray []
      | Some savedHistory \<Rightarrow>
          if savedHistory = [] then JArray []
          else (case JSON_parse savedHistory of
                  None \<Rightarrow> JArray []
                | Some parsed \<Rightarrow> parsed))"

definition useHistoryState_historyIndex ::
  "js_ops \<Rightarrow> json_parse \<Rightarrow> storage \<Rightarrow> jsstring \<Rightarrow> jsstring \<Rightarrow> number" where
  "useHistoryState_historyIndex ops JSON_parse localStorage historyKey indexKey =
     (case (case localStorage historyKey of
              None \<Rightarrow> Some (Length 0)
            | Some savedHistoryRaw \<Rightarrow>
                if savedHistoryRaw = [] then Some (Length 0)
                else (case JSON_parse savedHistoryRaw of
                        None \<Rightarrow> None
                      | Some parsed \<Rightarrow> get_length parsed)) of
        None \<Rightarrow> Integer (- 1)
      | Some historyLength \<Rightarrow>
          if strict_equals_zero ops historyLength then Integer (- 1)
          else
            (let savedIndex =
                   (case localStorage indexKey of
                      None \<Rightarrow> Some (- 1)
                    | Some savedIndexRaw \<Rightarrow>
                        if savedIndexRaw = [] then Some (- 1) else parseInt savedIndexRaw)
             in case savedIndex of
                  None \<Rightarrow> minus_one ops historyLength
                | Some i \<Rightarrow>
                    if i \<ge> 0 \<and> less_than ops i historyLength then Integer i
                    else minus_one ops historyLength))"

text \<open>
  A parsed value has the declared type \<open>string[]\<close> when it is an array of strings;
  \<open>entries_of\<close> then gives the strings.
\<close>

fun strings_of :: "json list \<Rightarrow> jsstring list option" where
  "strings_of [] = Some []"
| "strings_of (JString s # rest) = map_option ((#) s) (strings_of rest)"
| "strings_of (other # rest) = None"

definition entries_of :: "json \<Rightarrow> jsstring list option" where
  "entries_of v = (case v of JArray xs \<Rightarrow> strings_of xs | _ \<Rightarrow> None)"

subsection \<open>The state of \<open>App\<close>\<close>

record AppState =
  mode :: AppMode
  modelImage :: "Base64File option"
  clothingImage :: "Base64File option"
  isTryOnLoading :: bool
  tryOnError :: "jsstring option"
  tryOnBackgroundPrompt :: jsstring
  tryOnHistory :: "jsstring list"
  tryOnHistoryIndex :: int
  sourceImage :: "Base64File option"
  backgroundImage :: "Base64File option"
  isBgChangeLoading :: bool
  bgChangeError :: "jsstring option"
  bgChangePrompt :: jsstring
  bgHistory :: "jsstring list"
  bgHistoryIndex :: int
  activeFilter :: jsstring

text \<open>
  The state of the first render: the initial values of every \<open>useState\<close>. The record
  above has the types that the source declares, \<open>string[]\<close> for a history and an integer
  for a cursor, and the handlers are modelled on them. When an initialiser of
  \<open>useHistoryState\<close> gives a value of another kind there is no such state, and the result
  is \<open>None\<close>.
\<close>

definition App_init :: "js_ops \<Rightarrow> json_parse \<Rightarrow> storage \<Rightarrow> AppState option" where
  "App_init ops JSON_parse localStorage =
     (case (entries_of (useHistoryState_history JSON_parse localStorage TRYON_HISTORY_KEY),
            useHistoryState_historyIndex ops JSON_parse localStorage
              TRYON_HISTORY_KEY TRYON_HISTORY_INDEX_KEY,
            entries_of (useHistoryState_history JSON_parse localStorage BG_HISTORY_KEY),
            useHistoryState_historyIndex ops JSON_parse localStorage
              BG_HISTORY_KEY BG_HISTORY_INDEX_KEY) of
        (Some tryOnEntries, Integer tryOnIndex, Some bgEntries, Integer bgIndex) \<Rightarrow>
          Some
            \<lparr>mode = tryon,
             modelImage = None,
             clothingImage = None,
             isTryOnLoading = False,
             tryOnError = None,
             tryOnBackgroundPrompt = [],
             tryOnHistory = tryOnEntries,
             tryOnHistoryIndex = tryOnIndex,
             sourceImage = None,
             backgroundImage = None,
             isBgChangeLoading = False,
             bgChangeError = None,
             bgChangePrompt = [],
             bgHistory = bgEntries,
             bgHistoryIndex = bgIndex,
             activeFilter = ustr ''none''\<rparr>
      | _ \<Rightarrow> None)"

definition resultImage :: "AppState \<Rightarrow> jsstring option" where
  "resultImage s =
     (if mode s = tryon then index_or_null (tryOnHistory s) (tryOnHistoryIndex s)
      else index_or_null (bgHistory s) (bgHistoryIndex s))"

definition canUndo :: "AppState \<Rightarrow> bool" where
  "canUndo s = (if mode s = tryon then tryOnHistoryIndex s > 0 else bgHistoryIndex s > 0)"

definition canRedo :: "AppState \<Rightarrow> bool" where
  "canRedo s =
     (if mode s = tryon then tryOnHistoryIndex s < int (length (tryOnHistory s)) - 1
      else bgHistoryIndex s < int (length (bgHistory s)) - 1)"

subsection \<open>The handlers\<close>

text \<open>
  A handler takes the state of the render it was created in and gives the state after all
  its updates, with the calls it made. The \<open>catch\<close> clause of a generate handler shows
  \<open>err.message\<close> when \<open>err\<close> is an \<open>Error\<close>.
\<close>

definition error_message :: "thrown \<Rightarrow> jsstring" where
  "error_message err =
     (case err of Error message \<Rightarrow> message | NonError \<Rightarrow> ustr ''An unknown error occurred.'')"

definition handleGenerateTryOn :: "remote \<Rightarrow> FitAdjustment \<Rightarrow> AppState \<Rightarrow> AppState \<times> call list" where
  "handleGenerateTryOn remote fit s =
     (case (modelImage s, clothingImage s) of
        (Some model_image, Some clothing_image) \<Rightarrow>
          (let s1 = s\<lparr>isTryOnLoading := True, tryOnError := None, activeFilter := ustr ''none''\<rparr>;
               (outcome, calls) =
                 dressModel remote model_image clothing_image fit (tryOnBackgroundPrompt s);
               s2 = (case outcome of
                       Inr generatedImage \<Rightarrow>
                         (let newImage = ustr ''data:image/png;base64,'' @ generatedImage;
                              newHistory =
                                slice0 (tryOnHistory s) (tryOnHistoryIndex s + 1) @ [newImage]
                          in s1\<lparr>tryOnHistory := newHistory,
                                tryOnHistoryIndex := int (length newHistory) - 1\<rparr>)
                     | Inl err \<Rightarrow> s1\<lparr>tryOnError := Some (error_message err)\<rparr>)
           in (s2\<lparr>isTryOnLoading := False\<rparr>,
               DressModelCall model_image clothing_image fit (tryOnBackgroundPrompt s) # calls))
      | _ \<Rightarrow>
          (s\<lparr>tryOnError := Some (ustr ''Please upload both a model image and a clothing image.'')\<rparr>,
           []))"

definition handleGenerateBgChange :: "remote \<Rightarrow> AppState \<Rightarrow> AppState \<times> call list" where
  "handleGenerateBgChange remote s =
     (case sourceImage s of
        None \<Rightarrow> (s\<lparr>bgChangeError := Some (ustr ''Please upload a source image.'')\<rparr>, [])
      | Some source_image \<Rightarrow>
          if backgroundImage s = None \<and> trim (bgChangePrompt s) = [] then
            (s\<lparr>bgChangeError :=
                 Some (ustr ''Please either upload a new background image or describe the background you want.'')\<rparr>,
             [])
          else
            (let s1 = s\<lparr>isBgChangeLoading := True, bgChangeError := None,
                        activeFilter := ustr ''none''\<rparr>;
                 (outcome, calls) =
                   changeBackground remote source_image (bgChangePrompt s) (backgroundImage s);
                 s2 = (case outcome of
                         Inr generatedImage \<Rightarrow>
                           (let newImage = ustr ''data:image/png;base64,'' @ generatedImage;
                                newHistory =
                                  slice0 (bgHistory s) (bgHistoryIndex s + 1) @ [newImage]
                            in s1\<lparr>bgHistory := newHistory,
                                  bgHistoryIndex := int (length newHistory) - 1\<rparr>)
                       | Inl err \<Rightarrow> s1\<lparr>bgChangeError := Some (error_message err)\<rparr>)
             in (s2\<lparr>isBgChangeLoading := False\<rparr>,
                 ChangeBackgroundCall source_image (bgChangePrompt s) (backgroundImage s) # calls)))"

definition handleUndo :: "AppState \<Rightarrow> AppState" where
  "handleUndo s =
     (if mode s = tryon then
        (if tryOnHistoryIndex s > 0 then
           s\<lparr>tryOnHistoryIndex := tryOnHistoryIndex s - 1, activeFilter := ustr ''none''\<rparr>
         else s)
      else
        (if bgHistoryIndex s > 0 then
           s\<lparr>bgHistoryIndex := bgHistoryIndex s - 1, activeFilter := ustr ''none''\<rparr>
         else s))"

definition handleRedo :: "AppState \<Rightarrow> AppState" where
  "handleRedo s =
     (if mode s = tryon then
        (if tryOnHistoryIndex s < int (length (tryOnHistory s)) - 1 then
           s\<lparr>tryOnHistoryIndex := tryOnHistoryIndex s + 1, activeFilter := ustr ''none''\<rparr>
         else s)
      else
        (if bgHistoryIndex s < int (length (bgHistory s)) - 1 then
           s\<lparr>bgHistoryIndex := bgHistoryIndex s + 1, activeFilter := ustr ''none''\<rparr>
         else s))"

subsection \<open>Sequences of user actions\<close>

text \<open>
  What the user can do: the two generate handlers (each run meets its own behaviour of the
  remote capability), undo, redo, and the plain setters the page binds to its controls.
\<close>

datatype action =
    GenerateTryOn remote FitAdjustment
  | GenerateBgChange remote
  | Undo
  | Redo
  | SetMode AppMode
  | SetModelImage "Base64File option"
  | SetClothingImage "Base64File option"
  | SetTryOnBackgroundPrompt jsstring
  | SetSourceImage "Base64File option"
  | SetBackgroundImage "Base64File option"
  | SetBgChangePrompt jsstring
  | SetActiveFilter jsstring

fun perform :: "action \<Rightarrow> AppState \<Rightarrow> AppState" where
  "perform (GenerateTryOn remote fit) s = fst (handleGenerateTryOn remote fit s)"
| "perform (GenerateBgChange remote) s = fst (handleGenerateBgChange remote s)"
| "perform Undo s = handleUndo s"
| "perform Redo s = handleRedo s"
| "perform (SetMode m) s = s\<lparr>mode := m\<rparr>"
| "perform (SetModelImage file) s = s\<lparr>modelImage := file\<rparr>"
| "perform (SetClothingImage file) s = s\<lparr>clothingImage := file\<rparr>"
| "perform (SetTryOnBackgroundPrompt txt) s = s\<lparr>tryOnBackgroundPrompt := txt\<rparr>"
| "perform (SetSourceImage file) s = s\<lparr>sourceImage := file\<rparr>"
| "perform (SetBackgroundImage file) s = s\<lparr>backgroundImage := file\<rparr>"
| "perform (SetBgChangePrompt txt) s = s\<lparr>bgChangePrompt := txt\<rparr>"
| "perform (SetActiveFilter style) s = s\<lparr>activeFilter := style\<rparr>"

fun run :: "AppState \<Rightarrow> action list \<Rightarrow> AppState" where
  "run s [] = s"
| "run s (a # as) = run (perform a s) as"

text \<open>The invariant of a history: the cursor is \<open>-1\<close> or an index of the entry list.\<close>

definition cursor_in_range :: "jsstring list \<Rightarrow> int \<Rightarrow> bool" where
  "cursor_in_range entries cursor \<longleftrightarrow> - 1 \<le> cursor \<and> cursor \<le> int (length entries) - 1"

definition histories_ok :: "AppState \<Rightarrow> bool" where
  "histories_ok s \<longleftrightarrow>
     cursor_in_range (tryOnHistory s) (tryOnHistoryIndex s) \<and>
     cursor_in_range (bgHistory s) (bgHistoryIndex s)"

text \<open>The entry list and the cursor of the workflow that the mode selects.\<close>

definition entries :: "AppState \<Rightarrow> jsstring list" where
  "entries s = (if mode s = tryon then tryOnHistory s else bgHistory s)"

definition cursor :: "AppState \<Rightarrow> int" where
  "cursor s = (if mode s = tryon then tryOnHistoryIndex s else bgHistoryIndex s)"

section \<open>A concrete session\<close>

text \<open>
  Inputs for evaluating the model: an uploaded file, three behaviours of the remote
  capability (an image comes back after a text part, no image comes back, the call is
  rejected), and a session that starts with nothing stored, generates twice in each
  workflow and takes one step back in each.
\<close>

definition example_file :: Base64File where
  "example_file = \<lparr>base64 = ustr ''QUJD'', mimeType = ustr ''image/png''\<rparr>"

definition image_response :: "jsstring \<Rightarrow> GenerateContentResponse" where
  "image_response d =
     \<lparr>candidates = Some [\<lparr>content = Some \<lparr>parts = Some
        [textPart (ustr ''Here it is''),
         \<lparr>inlineData = Some \<lparr>data = d, mimeType = ustr ''image/jpeg''\<rparr>, text' = None\<rparr>]\<rparr>\<rparr>]\<rparr>"

definition no_image_response :: GenerateContentResponse where
  "no_image_response =
     \<lparr>candidates = Some [\<lparr>content = Some \<lparr>parts = Some
        [textPart (ustr ''I cannot do that'')]\<rparr>\<rparr>]\<rparr>"

definition remote_image :: "jsstring \<Rightarrow> remote" where
  "remote_image d = (\<lambda>request. Inr (image_response d))"

definition remote_no_image :: remote where
  "remote_no_image = (\<lambda>request. Inr no_image_response)"

definition remote_rejects :: remote where
  "remote_rejects = (\<lambda>request. Inl NonError)"

text \<open>The first state when nothing is stored.\<close>

definition empty_state :: AppState where
  "empty_state =
     \<lparr>mode = tryon,
      modelImage = None,
      clothingImage = None,
      isTryOnLoading = False,
      tryOnError = None,
      tryOnBackgroundPrompt = [],
      tryOnHistory = [],
      tryOnHistoryIndex = - 1,
      sourceImage = None,
      backgroundImage = None,
      isBgChangeLoading = False,
      bgChangeError = None,
      bgChangePrompt = [],
      bgHistory = [],
      bgHistoryIndex = - 1,
      activeFilter = ustr ''none''\<rparr>"

definition example_session :: "action list" where
  "example_session =
     [SetModelImage (Some example_file), SetClothingImage (Some example_file),
      GenerateTryOn (remote_image (ustr ''AAAA'')) default_fit,
      GenerateTryOn (remote_image (ustr ''BBBB'')) tighter,
      Undo,
      SetMode background,
      SetSourceImage (Some example_file), SetBgChangePrompt (ustr ''a beach''),
      GenerateBgChange (remote_image (ustr ''DDDD'')),
      GenerateBgChange (remote_image (ustr ''EEEE'')),
      Undo]"

definition after_undo :: AppState where
  "after_undo =
     \<lparr>mode = background,
      modelImage = Some example_file,
      clothingImage = Some example_file,
      isTryOnLoading = False,
      tryOnError = None,
      tryOnBackgroundPrompt = [],
      tryOnHistory = [ustr ''data:image/png;base64,AAAA'', ustr ''data:image/png;base64,BBBB''],
      tryOnHistoryIndex = 0,
      sourceImage = Some example_file,
      backgroundImage = None,
      isBgChangeLoading = False,
      bgChangeError = None,
      bgChangePrompt = ustr ''a beach'',
      bgHistory = [ustr ''data:image/png;base64,DDDD'', ustr ''data:image/png;base64,EEEE''],
      bgHistoryIndex = 0,
      activeFilter = ustr ''none''\<rparr>"

text \<open>
  Four stores for the start of the application, each with the stored cursor 0 or 7: one
  whose entry list is cut off and is no JSON, one with two entries, one whose entry list
  is the JSON object \<open>{}\<close> and one whose entry list is the JSON value \<open>null\<close>.
  \<open>example_parse\<close> reads the three JSON texts used here as \<open>JSON.parse\<close> does and
  rejects everything else.
\<close>

definition example_parse :: json_parse where
  \<open>example_parse stored =
     (if stored = ustr ''["x","y"]'' then Some (JArray [JString (ustr ''x''), JString (ustr ''y'')])
      else if stored = ustr ''{}'' then Some (JObject [])
      else if stored = ustr ''null'' then Some JNull
      else None)\<close>

definition corrupt_store :: storage where
  \<open>corrupt_store =
     [TRYON_HISTORY_KEY \<mapsto> ustr ''["x",'', TRYON_HISTORY_INDEX_KEY \<mapsto> ustr ''0'']\<close>

definition stale_store :: storage where
  \<open>stale_store =
     [TRYON_HISTORY_KEY \<mapsto> ustr ''["x","y"]'', TRYON_HISTORY_INDEX_KEY \<mapsto> ustr ''7'']\<close>

definition object_store :: storage where
  \<open>object_store =
     [TRYON_HISTORY_KEY \<mapsto> ustr ''{}'', TRYON_HISTORY_INDEX_KEY \<mapsto> ustr ''0'']\<close>

definition null_store :: storage where
  \<open>null_store =
     [TRYON_HISTORY_KEY \<mapsto> ustr ''null'', TRYON_HISTORY_INDEX_KEY \<mapsto> ustr ''0'']\<close>

section \<open>Properties\<close>

subsection \<open>Auxiliary facts\<close>

lemma trim_empty_iff: "trim s = [] \<longleftrightarrow> list_all isWhiteSpace s"
proof
  assume "trim s = []"
  then have all_ws: "\<forall>x\<in>set (dropWhile isWhiteSpace s). isWhiteSpace x"
    by (simp add: trim_def dropWhile_eq_Nil_conv)
  have "dropWhile isWhiteSpace s = []"
  proof (rule ccontr)
    assume ne: "dropWhile isWhiteSpace s \<noteq> []"
    then have "\<not> isWhiteSpace (hd (dropWhile isWhiteSpace s))"
      by (rule hd_dropWhile)
    moreover have "hd (dropWhile isWhiteSpace s) \<in> set (dropWhile isWhiteSpace s)"
      using ne by simp
    ultimately show False
      using all_ws by blast
  qed
  then show "list_all isWhiteSpace s"
    by (simp add: dropWhile_eq_Nil_conv list_all_iff)
next
  assume "list_all isWhiteSpace s"
  then show "trim s = []"
    by (auto simp: trim_def dropWhile_eq_Nil_conv list_all_iff dest: set_dropWhileD)
qed

lemma slice0_in_range:
  "cursor_in_range xs c \<Longrightarrow> slice0 xs (c + 1) = take (nat (c + 1)) xs"
  by (auto simp: slice0_def cursor_in_range_def Let_def min_def)

lemma handleUndo_ok: "histories_ok s \<Longrightarrow> histories_ok (handleUndo s)"
  by (auto simp: histories_ok_def handleUndo_def cursor_in_range_def)

lemma handleRedo_ok: "histories_ok s \<Longrightarrow> histories_ok (handleRedo s)"
  by (auto simp: histories_ok_def handleRedo_def cursor_in_range_def)

lemma handleGenerateTryOn_ok:
  "histories_ok s \<Longrightarrow> histories_ok (fst (handleGenerateTryOn remote fit s))"
  by (auto simp: histories_ok_def handleGenerateTryOn_def cursor_in_range_def Let_def
           split: option.splits prod.splits sum.splits)

lemma handleGenerateBgChange_ok:
  "histories_ok s \<Longrightarrow> histories_ok (fst (handleGenerateBgChange remote s))"
  by (auto simp: histories_ok_def handleGenerateBgChange_def cursor_in_range_def Let_def
           split: option.splits prod.splits sum.splits)

lemma perform_ok: "histories_ok s \<Longrightarrow> histories_ok (perform a s)"
  by (cases a)
     (simp_all add: handleUndo_ok handleRedo_ok handleGenerateTryOn_ok handleGenerateBgChange_ok,
      simp_all add: histories_ok_def)

lemma run_ok: "histories_ok s \<Longrightarrow> histories_ok (run s acts)"
  by (induction acts arbitrary: s) (simp_all add: perform_ok)

lemma run_append: "run s (acts @ later) = run (run s acts) later"
  by (induction acts arbitrary: s) simp_all

lemma handleGenerateTryOn_success:
  assumes "modelImage s = Some m" "clothingImage s = Some c"
    and "fst (dressModel remote m c fit (tryOnBackgroundPrompt s)) = Inr generatedImage"
  shows "tryOnHistory (fst (handleGenerateTryOn remote fit s)) =
           slice0 (tryOnHistory s) (tryOnHistoryIndex s + 1) @
           [ustr ''data:image/png;base64,'' @ generatedImage]"
    and "tryOnHistoryIndex (fst (handleGenerateTryOn remote fit s)) =
           int (length (tryOnHistory (fst (handleGenerateTryOn remote fit s)))) - 1"
  using assms
  by (auto simp: handleGenerateTryOn_def Let_def split: prod.splits sum.splits)

lemma handleGenerateBgChange_success:
  assumes "sourceImage s = Some src"
    and "\<not> (backgroundImage s = None \<and> trim (bgChangePrompt s) = [])"
    and "fst (changeBackground remote src (bgChangePrompt s) (backgroundImage s)) = Inr generatedImage"
  shows "bgHistory (fst (handleGenerateBgChange remote s)) =
           slice0 (bgHistory s) (bgHistoryIndex s + 1) @
           [ustr ''data:image/png;base64,'' @ generatedImage]"
    and "bgHistoryIndex (fst (handleGenerateBgChange remote s)) =
           int (length (bgHistory (fst (handleGenerateBgChange remote s)))) - 1"
  using assms
  by (auto simp: handleGenerateBgChange_def Let_def split: prod.splits sum.splits)

text \<open>The facts that evaluate the concrete session.\<close>

lemmas session_defs = empty_state_def example_session_def handleGenerateTryOn_def
  handleGenerateBgChange_def handleUndo_def handleRedo_def dressModel_def dressModel_try_def
  changeBackground_def changeBackground_try_def find_imagePart_def remote_image_def
  remote_no_image_def remote_rejects_def textPart_def image_response_def
  no_image_response_def slice0_def Let_def trim_def isWhiteSpace_def ustr_def

lemma example_session_state: "run empty_state example_session = after_undo"
  by (simp add: session_defs after_undo_def)

lemma after_undo_ok: "histories_ok after_undo"
  by (simp add: after_undo_def histories_ok_def cursor_in_range_def)

subsection \<open>The history of a workflow\<close>

text \<open>
  C1. Whatever the user does, starting from a state whose two histories have their cursors
  in range (the empty history, with no entry and cursor \<open>-1\<close>, is one), the cursor of each
  history stays between \<open>-1\<close> and the last index of its entry list. Undo changes nothing
  when the cursor is at most 0 and otherwise moves the cursor one step back; redo changes
  nothing when the cursor is at or beyond the last index and otherwise moves it one step
  forward; a generate that succeeds leaves the cursor on the last index of the new entry
  list.
\<close>

theorem cursor_stays_in_range:
  assumes "histories_ok s"
  shows "histories_ok (run s acts)
    \<and> (cursor s \<le> 0 \<longrightarrow> handleUndo s = s)
    \<and> (cursor s > 0 \<longrightarrow>
         cursor (handleUndo s) = cursor s - 1 \<and> entries (handleUndo s) = entries s)
    \<and> (cursor s \<ge> int (length (entries s)) - 1 \<longrightarrow> handleRedo s = s)
    \<and> (cursor s < int (length (entries s)) - 1 \<longrightarrow>
         cursor (handleRedo s) = cursor s + 1 \<and> entries (handleRedo s) = entries s)
    \<and> (\<forall>remote fit m c generatedImage.
          modelImage s = Some m \<and> clothingImage s = Some c \<and>
          fst (dressModel remote m c fit (tryOnBackgroundPrompt s)) = Inr generatedImage \<longrightarrow>
          tryOnHistoryIndex (fst (handleGenerateTryOn remote fit s)) =
            int (length (tryOnHistory (fst (handleGenerateTryOn remote fit s)))) - 1)
    \<and> (\<forall>remote src generatedImage.
          sourceImage s = Some src \<and>
          \<not> (backgroundImage s = None \<and> trim (bgChangePrompt s) = []) \<and>
          fst (changeBackground remote src (bgChangePrompt s) (backgroundImage s)) =
            Inr generatedImage \<longrightarrow>
          bgHistoryIndex (fst (handleGenerateBgChange remote s)) =
            int (length (bgHistory (fst (handleGenerateBgChange remote s)))) - 1)"
proof -
  have inv: "histories_ok (run s acts)"
    using assms by (rule run_ok)
  have undo_noop: "cursor s \<le> 0 \<longrightarrow> handleUndo s = s"
    by (simp add: cursor_def handleUndo_def)
  have undo_step: "cursor s > 0 \<longrightarrow>
      cursor (handleUndo s) = cursor s - 1 \<and> entries (handleUndo s) = entries s"
    by (simp add: cursor_def entries_def handleUndo_def)
  have redo_noop: "cursor s \<ge> int (length (entries s)) - 1 \<longrightarrow> handleRedo s = s"
    by (simp add: cursor_def entries_def handleRedo_def)
  have redo_step: "cursor s < int (length (entries s)) - 1 \<longrightarrow>
      cursor (handleRedo s) = cursor s + 1 \<and> entries (handleRedo s) = entries s"
    by (simp add: cursor_def entries_def handleRedo_def)
  show ?thesis
    using inv undo_noop undo_step redo_noop redo_step
      handleGenerateTryOn_success(2) handleGenerateBgChange_success(2)
    by blast
qed

text \<open>
  The session that starts with nothing stored: its first state is in range, so is its last,
  and from there undo does nothing (both cursors are 0) while redo moves to index 1.
\<close>

theorem cursor_stays_in_range_witness:
  "histories_ok empty_state
   \<and> tryOnHistory empty_state = [] \<and> tryOnHistoryIndex empty_state = - 1
   \<and> histories_ok (run empty_state example_session)
   \<and> handleUndo after_undo = after_undo
   \<and> cursor (handleRedo after_undo) = 1"
proof -
  have start: "histories_ok empty_state"
    by (simp add: session_defs histories_ok_def cursor_in_range_def)
  have "tryOnHistory empty_state = [] \<and> tryOnHistoryIndex empty_state = - 1"
    by (simp add: session_defs)
  moreover have "cursor after_undo = 0" "int (length (entries after_undo)) = 2"
    by (simp_all add: cursor_def entries_def after_undo_def)
  ultimately show ?thesis
    using start cursor_stays_in_range [OF start, of example_session]
      cursor_stays_in_range [OF after_undo_ok, of "[]"]
    by simp
qed

text \<open>
  C2. In a history whose cursor is in range and lies before the last index (as after an
  undo), a generate that succeeds keeps the entries up to and including the old cursor,
  drops every later one, appends exactly one entry made from the returned image, and
  puts the cursor on that entry, which is the last index of the new list. This holds in
  both workflows.
\<close>

theorem generate_truncates_branch:
  "(cursor_in_range (tryOnHistory s) (tryOnHistoryIndex s) \<and>
    tryOnHistoryIndex s < int (length (tryOnHistory s)) - 1 \<and>
    modelImage s = Some m \<and> clothingImage s = Some c \<and>
    fst (dressModel remote m c fit (tryOnBackgroundPrompt s)) = Inr generatedImage \<longrightarrow>
      tryOnHistory (fst (handleGenerateTryOn remote fit s)) =
        take (nat (tryOnHistoryIndex s + 1)) (tryOnHistory s) @
        [ustr ''data:image/png;base64,'' @ generatedImage] \<and>
      tryOnHistoryIndex (fst (handleGenerateTryOn remote fit s)) = tryOnHistoryIndex s + 1 \<and>
      tryOnHistoryIndex (fst (handleGenerateTryOn remote fit s)) =
        int (length (tryOnHistory (fst (handleGenerateTryOn remote fit s)))) - 1)
   \<and>
   (cursor_in_range (bgHistory s) (bgHistoryIndex s) \<and>
    bgHistoryIndex s < int (length (bgHistory s)) - 1 \<and>
    sourceImage s = Some src \<and>
    \<not> (backgroundImage s = None \<and> trim (bgChangePrompt s) = []) \<and>
    fst (changeBackground remote' src (bgChangePrompt s) (backgroundImage s)) =
      Inr generatedImage' \<longrightarrow>
      bgHistory (fst (handleGenerateBgChange remote' s)) =
        take (nat (bgHistoryIndex s + 1)) (bgHistory s) @
        [ustr ''data:image/png;base64,'' @ generatedImage'] \<and>
      bgHistoryIndex (fst (handleGenerateBgChange remote' s)) = bgHistoryIndex s + 1 \<and>
      bgHistoryIndex (fst (handleGenerateBgChange remote' s)) =
        int (length (bgHistory (fst (handleGenerateBgChange remote' s)))) - 1)"
proof (intro conjI impI)
  assume a: "cursor_in_range (tryOnHistory s) (tryOnHistoryIndex s) \<and>
    tryOnHistoryIndex s < int (length (tryOnHistory s)) - 1 \<and>
    modelImage s = Some m \<and> clothingImage s = Some c \<and>
    fst (dressModel remote m c fit (tryOnBackgroundPrompt s)) = Inr generatedImage"
  then have h: "tryOnHistory (fst (handleGenerateTryOn remote fit s)) =
        take (nat (tryOnHistoryIndex s + 1)) (tryOnHistory s) @
        [ustr ''data:image/png;base64,'' @ generatedImage]"
    using handleGenerateTryOn_success(1) [of s m c remote fit generatedImage]
    by (simp add: slice0_in_range)
  show "tryOnHistory (fst (handleGenerateTryOn remote fit s)) =
        take (nat (tryOnHistoryIndex s + 1)) (tryOnHistory s) @
        [ustr ''data:image/png;base64,'' @ generatedImage]"
    by (rule h)
  show last_index: "tryOnHistoryIndex (fst (handleGenerateTryOn remote fit s)) =
        int (length (tryOnHistory (fst (handleGenerateTryOn remote fit s)))) - 1"
    using a handleGenerateTryOn_success(2) [of s m c remote fit generatedImage] by simp
  show "tryOnHistoryIndex (fst (handleGenerateTryOn remote fit s)) = tryOnHistoryIndex s + 1"
    using a by (auto simp: last_index h cursor_in_range_def)
next
  assume a: "cursor_in_range (bgHistory s) (bgHistoryIndex s) \<and>
    bgHistoryIndex s < int (length (bgHistory s)) - 1 \<and>
    sourceImage s = Some src \<and>
    \<not> (backgroundImage s = None \<and> trim (bgChangePrompt s) = []) \<and>
    fst (changeBackground remote' src (bgChangePrompt s) (backgroundImage s)) =
      Inr generatedImage'"
  then have h: "bgHistory (fst (handleGenerateBgChange remote' s)) =
        take (nat (bgHistoryIndex s + 1)) (bgHistory s) @
        [ustr ''data:image/png;base64,'' @ generatedImage']"
    using handleGenerateBgChange_success(1) [of s src remote' generatedImage']
    by (simp add: slice0_in_range)
  show "bgHistory (fst (handleGenerateBgChange remote' s)) =
        take (nat (bgHistoryIndex s + 1)) (bgHistory s) @
        [ustr ''data:image/png;base64,'' @ generatedImage']"
    by (rule h)
  show last_index: "bgHistoryIndex (fst (handleGenerateBgChange remote' s)) =
        int (length (bgHistory (fst (handleGenerateBgChange remote' s)))) - 1"
    using a handleGenerateBgChange_success(2) [of s src remote' generatedImage'] by simp
  show "bgHistoryIndex (fst (handleGenerateBgChange remote' s)) = bgHistoryIndex s + 1"
    using a by (auto simp: last_index h cursor_in_range_def)
qed

text \<open>
  After the undo of the session each history holds two entries with the cursor on the
  first; generating again replaces the second entry and moves the cursor onto it.
\<close>

theorem generate_truncates_branch_witness:
  "tryOnHistory (fst (handleGenerateTryOn (remote_image (ustr ''CCCC'')) looser after_undo)) =
     [ustr ''data:image/png;base64,AAAA'', ustr ''data:image/png;base64,CCCC'']
   \<and> tryOnHistoryIndex (fst (handleGenerateTryOn (remote_image (ustr ''CCCC'')) looser after_undo)) = 1
   \<and> bgHistory (fst (handleGenerateBgChange (remote_image (ustr ''FFFF'')) after_undo)) =
     [ustr ''data:image/png;base64,DDDD'', ustr ''data:image/png;base64,FFFF'']
   \<and> bgHistoryIndex (fst (handleGenerateBgChange (remote_image (ustr ''FFFF'')) after_undo)) = 1"
proof -
  have tryon: "cursor_in_range (tryOnHistory after_undo) (tryOnHistoryIndex after_undo) \<and>
      tryOnHistoryIndex after_undo < int (length (tryOnHistory after_undo)) - 1 \<and>
      modelImage after_undo = Some example_file \<and> clothingImage after_undo = Some example_file \<and>
      fst (dressModel (remote_image (ustr ''CCCC'')) example_file example_file looser
             (tryOnBackgroundPrompt after_undo)) = Inr (ustr ''CCCC'')"
    by (simp add: after_undo_def cursor_in_range_def dressModel_def dressModel_try_def
          remote_image_def image_response_def find_imagePart_def textPart_def)
  have bg: "cursor_in_range (bgHistory after_undo) (bgHistoryIndex after_undo) \<and>
      bgHistoryIndex after_undo < int (length (bgHistory after_undo)) - 1 \<and>
      sourceImage after_undo = Some example_file \<and>
      \<not> (backgroundImage after_undo = None \<and> trim (bgChangePrompt after_undo) = []) \<and>
      fst (changeBackground (remote_image (ustr ''FFFF'')) example_file
             (bgChangePrompt after_undo) (backgroundImage after_undo)) = Inr (ustr ''FFFF'')"
    by (simp add: after_undo_def cursor_in_range_def changeBackground_def changeBackground_try_def
          remote_image_def image_response_def find_imagePart_def textPart_def
          trim_def isWhiteSpace_def ustr_def)
  have entries_eq:
    "take (Suc 0) (tryOnHistory after_undo) = [ustr ''data:image/png;base64,AAAA'']"
    "take (Suc 0) (bgHistory after_undo) = [ustr ''data:image/png;base64,DDDD'']"
    "tryOnHistoryIndex after_undo = 0" "bgHistoryIndex after_undo = 0"
    by (simp_all add: after_undo_def)
  have glue: "ustr ''data:image/png;base64,'' @ ustr ''CCCC'' = ustr ''data:image/png;base64,CCCC''"
    "ustr ''data:image/png;base64,'' @ ustr ''FFFF'' = ustr ''data:image/png;base64,FFFF''"
    by (simp_all add: ustr_def)
  show ?thesis
    using generate_truncates_branch
      [of after_undo example_file example_file "remote_image (ustr ''CCCC'')" looser
          "ustr ''CCCC''" example_file "remote_image (ustr ''FFFF'')" "ustr ''FFFF''"]
      tryon bg
    by (simp add: entries_eq glue)
qed

text \<open>
  C3, as the code has it. In a history whose cursor is in range, undo followed by redo
  gives back the same cursor, the same entries and so the same current entry whenever undo
  is available (the cursor is above 0) or redo is not (the cursor is on the last index, or
  the history is empty). With the cursor on the first of several entries undo does nothing
  and redo then moves forward, so the law does not hold for every history state.
\<close>

theorem undo_redo_round_trip:
  assumes "cursor_in_range (entries s) (cursor s)"
    and "canUndo s \<or> \<not> canRedo s"
  shows "cursor (handleRedo (handleUndo s)) = cursor s
    \<and> entries (handleRedo (handleUndo s)) = entries s
    \<and> resultImage (handleRedo (handleUndo s)) = resultImage s"
  using assms
  by (auto simp: cursor_in_range_def entries_def cursor_def canUndo_def canRedo_def
        handleUndo_def handleRedo_def resultImage_def split: if_splits)

theorem undo_redo_round_trip_witness:
  "cursor_in_range (entries (handleRedo after_undo)) (cursor (handleRedo after_undo))
   \<and> canUndo (handleRedo after_undo)
   \<and> resultImage (handleRedo after_undo) = Some (ustr ''data:image/png;base64,EEEE'')
   \<and> resultImage (handleRedo (handleUndo (handleRedo after_undo))) =
       Some (ustr ''data:image/png;base64,EEEE'')"
proof -
  have range: "cursor_in_range (entries (handleRedo after_undo)) (cursor (handleRedo after_undo))"
    by (simp add: after_undo_def handleRedo_def entries_def cursor_def cursor_in_range_def)
  have undo: "canUndo (handleRedo after_undo)"
    by (simp add: after_undo_def handleRedo_def canUndo_def)
  have current: "resultImage (handleRedo after_undo) = Some (ustr ''data:image/png;base64,EEEE'')"
    by (simp add: after_undo_def handleRedo_def resultImage_def index_or_null_def)
  show ?thesis
    using undo_redo_round_trip [OF range] range undo current by simp
qed

text \<open>
  The claim as it is written fails at the end of the session, which began with nothing
  stored: the current entry is then the first of two, undo leaves it, and redo shows the
  second one.
\<close>

theorem undo_redo_round_trip_counterexample:
  "resultImage (run empty_state example_session) = Some (ustr ''data:image/png;base64,DDDD'')
   \<and> resultImage (run empty_state (example_session @ [Undo, Redo])) =
       Some (ustr ''data:image/png;base64,EEEE'')
   \<and> resultImage (run empty_state (example_session @ [Undo, Redo])) \<noteq>
       resultImage (run empty_state example_session)"
  by (simp add: run_append example_session_state after_undo_def handleUndo_def handleRedo_def
        resultImage_def index_or_null_def ustr_def)

subsection \<open>Rejected and failed generations\<close>

text \<open>
  C4. When a required input is missing, generate only sets the validation message of its
  workflow: it makes no call to the generation client and no remote call, and every other
  component of the state (the entries, the cursor and the loading flag among them) is as
  before. The inputs are missing, for try-on, when the model image or the clothing image is
  absent; for background change, when the source image is absent, or when the background
  image is absent and the prompt is empty or holds white space only. The client operation
  \<open>changeBackground\<close> has the same guard: with no background image and such a prompt it
  fails at once, without a remote call.
\<close>

theorem generate_rejects_missing_inputs:
  "(modelImage s = None \<or> clothingImage s = None \<longrightarrow>
      handleGenerateTryOn remote fit s =
        (s\<lparr>tryOnError := Some (ustr ''Please upload both a model image and a clothing image.'')\<rparr>,
         []))
   \<and> (sourceImage s = None \<longrightarrow>
      handleGenerateBgChange remote s =
        (s\<lparr>bgChangeError := Some (ustr ''Please upload a source image.'')\<rparr>, []))
   \<and> (sourceImage s \<noteq> None \<and> backgroundImage s = None \<and>
       list_all isWhiteSpace (bgChangePrompt s) \<longrightarrow>
      handleGenerateBgChange remote s =
        (s\<lparr>bgChangeError :=
             Some (ustr ''Please either upload a new background image or describe the background you want.'')\<rparr>,
         []))
   \<and> (list_all isWhiteSpace backgroundPrompt \<longrightarrow>
      changeBackground remote src backgroundPrompt None =
        (Inl (Error (ustr ''A background description or a background image is required.'')), []))"
proof (intro conjI impI)
  assume "modelImage s = None \<or> clothingImage s = None"
  then show "handleGenerateTryOn remote fit s =
        (s\<lparr>tryOnError := Some (ustr ''Please upload both a model image and a clothing image.'')\<rparr>,
         [])"
    by (auto simp: handleGenerateTryOn_def split: option.splits)
next
  assume "sourceImage s = None"
  then show "handleGenerateBgChange remote s =
        (s\<lparr>bgChangeError := Some (ustr ''Please upload a source image.'')\<rparr>, [])"
    by (simp add: handleGenerateBgChange_def)
next
  assume "sourceImage s \<noteq> None \<and> backgroundImage s = None \<and>
       list_all isWhiteSpace (bgChangePrompt s)"
  then show "handleGenerateBgChange remote s =
        (s\<lparr>bgChangeError :=
             Some (ustr ''Please either upload a new background image or describe the background you want.'')\<rparr>,
         [])"
    by (auto simp: handleGenerateBgChange_def trim_empty_iff split: option.splits)
next
  assume "list_all isWhiteSpace backgroundPrompt"
  then have "trim backgroundPrompt = []"
    by (simp add: trim_empty_iff)
  then show "changeBackground remote src backgroundPrompt None =
        (Inl (Error (ustr ''A background description or a background image is required.'')), [])"
    by (simp add: changeBackground_def)
qed

text \<open>
  Three states with a missing input: the clothing image removed, the source image removed,
  and a prompt of two blanks with no background image. The histories, the cursors and the
  loading flags are those of the state before.
\<close>

theorem generate_rejects_missing_inputs_witness:
  "clothingImage (after_undo\<lparr>clothingImage := None\<rparr>) = None
   \<and> snd (handleGenerateTryOn (remote_image (ustr ''CCCC'')) tighter
            (after_undo\<lparr>clothingImage := None\<rparr>)) = []
   \<and> tryOnHistory (fst (handleGenerateTryOn (remote_image (ustr ''CCCC'')) tighter
            (after_undo\<lparr>clothingImage := None\<rparr>))) = tryOnHistory after_undo
   \<and> tryOnHistoryIndex (fst (handleGenerateTryOn (remote_image (ustr ''CCCC'')) tighter
            (after_undo\<lparr>clothingImage := None\<rparr>))) = 0
   \<and> \<not> isTryOnLoading (fst (handleGenerateTryOn (remote_image (ustr ''CCCC'')) tighter
            (after_undo\<lparr>clothingImage := None\<rparr>)))
   \<and> snd (handleGenerateBgChange (remote_image (ustr ''FFFF''))
            (after_undo\<lparr>sourceImage := None\<rparr>)) = []
   \<and> list_all isWhiteSpace (ustr ''  '')
   \<and> snd (handleGenerateBgChange (remote_image (ustr ''FFFF''))
            (after_undo\<lparr>bgChangePrompt := ustr ''  ''\<rparr>)) = []
   \<and> bgHistory (fst (handleGenerateBgChange (remote_image (ustr ''FFFF''))
            (after_undo\<lparr>bgChangePrompt := ustr ''  ''\<rparr>))) = bgHistory after_undo
   \<and> bgHistoryIndex (fst (handleGenerateBgChange (remote_image (ustr ''FFFF''))
            (after_undo\<lparr>bgChangePrompt := ustr ''  ''\<rparr>))) = 0
   \<and> snd (changeBackground (remote_image (ustr ''FFFF'')) example_file (ustr ''  '') None) = []"
proof -
  have blanks: "list_all isWhiteSpace (ustr ''  '')"
    by (simp add: ustr_def isWhiteSpace_def)
  have fields: "tryOnHistoryIndex after_undo = 0" "bgHistoryIndex after_undo = 0"
    "\<not> isTryOnLoading after_undo" "backgroundImage after_undo = None"
    "sourceImage after_undo \<noteq> None"
    by (simp_all add: after_undo_def)
  show ?thesis
    using generate_rejects_missing_inputs
        [of "after_undo\<lparr>clothingImage := None\<rparr>" "remote_image (ustr ''CCCC'')" tighter]
      generate_rejects_missing_inputs
        [of "after_undo\<lparr>sourceImage := None\<rparr>" "remote_image (ustr ''FFFF'')"]
      generate_rejects_missing_inputs
        [of "after_undo\<lparr>bgChangePrompt := ustr ''  ''\<rparr>" "remote_image (ustr ''FFFF'')" _
            "ustr ''  ''" example_file]
      blanks fields
    by simp
qed

text \<open>
  C5. When the inputs are there, so that generate reaches the generation client, and the
  remote call is rejected or its response has no part with inline data, the handler ends
  in the state it started from with the client's failure message as the workflow's error,
  the loading flag cleared and the filter reset: no entry is appended and no cursor moves.
  The call list shows that the client was reached and made its remote call.
\<close>

theorem failed_generation_keeps_history:
  "(modelImage s = Some m \<and> clothingImage s = Some c \<and>
    ((\<exists>rejected. remote (dressModel_request m c fit (tryOnBackgroundPrompt s)) = Inl rejected) \<or>
     (\<exists>response. remote (dressModel_request m c fit (tryOnBackgroundPrompt s)) = Inr response \<and>
                 find_imagePart response = None)) \<longrightarrow>
      handleGenerateTryOn remote fit s =
        (s\<lparr>isTryOnLoading := False,
           tryOnError := Some (ustr ''Failed to generate image from AI. The model may have refused to process the request. Check your images and try again.''),
           activeFilter := ustr ''none''\<rparr>,
         [DressModelCall m c fit (tryOnBackgroundPrompt s),
          GenerateContentCall (dressModel_request m c fit (tryOnBackgroundPrompt s))]))
   \<and>
   (sourceImage s = Some src \<and>
    \<not> (backgroundImage s = None \<and> list_all isWhiteSpace (bgChangePrompt s)) \<and>
    ((\<exists>rejected. remote' (changeBackground_request src (bgChangePrompt s) (backgroundImage s)) =
                   Inl rejected) \<or>
     (\<exists>response. remote' (changeBackground_request src (bgChangePrompt s) (backgroundImage s)) =
                   Inr response \<and>
                 find_imagePart response = None)) \<longrightarrow>
      handleGenerateBgChange remote' s =
        (s\<lparr>isBgChangeLoading := False,
           bgChangeError := Some (ustr ''Failed to change background from AI. The model may have refused to process the request. Check your image and try again.''),
           activeFilter := ustr ''none''\<rparr>,
         [ChangeBackgroundCall src (bgChangePrompt s) (backgroundImage s),
          GenerateContentCall (changeBackground_request src (bgChangePrompt s) (backgroundImage s))]))"
proof (intro conjI impI)
  assume a: "modelImage s = Some m \<and> clothingImage s = Some c \<and>
    ((\<exists>rejected. remote (dressModel_request m c fit (tryOnBackgroundPrompt s)) = Inl rejected) \<or>
     (\<exists>response. remote (dressModel_request m c fit (tryOnBackgroundPrompt s)) = Inr response \<and>
                 find_imagePart response = None))"
  then have "dressModel remote m c fit (tryOnBackgroundPrompt s) =
      (Inl (Error (ustr ''Failed to generate image from AI. The model may have refused to process the request. Check your images and try again.'')),
       [GenerateContentCall (dressModel_request m c fit (tryOnBackgroundPrompt s))])"
    by (auto simp: dressModel_def dressModel_try_def)
  with a show "handleGenerateTryOn remote fit s =
        (s\<lparr>isTryOnLoading := False,
           tryOnError := Some (ustr ''Failed to generate image from AI. The model may have refused to process the request. Check your images and try again.''),
           activeFilter := ustr ''none''\<rparr>,
         [DressModelCall m c fit (tryOnBackgroundPrompt s),
          GenerateContentCall (dressModel_request m c fit (tryOnBackgroundPrompt s))])"
    by (simp add: handleGenerateTryOn_def error_message_def)
next
  assume a: "sourceImage s = Some src \<and>
    \<not> (backgroundImage s = None \<and> list_all isWhiteSpace (bgChangePrompt s)) \<and>
    ((\<exists>rejected. remote' (changeBackground_request src (bgChangePrompt s) (backgroundImage s)) =
                   Inl rejected) \<or>
     (\<exists>response. remote' (changeBackground_request src (bgChangePrompt s) (backgroundImage s)) =
                   Inr response \<and>
                 find_imagePart response = None))"
  then have guard: "\<not> (backgroundImage s = None \<and> trim (bgChangePrompt s) = [])"
    by (simp add: trim_empty_iff)
  then have guard': "\<not> ((bgChangePrompt s = [] \<or> length (trim (bgChangePrompt s)) = 0) \<and>
      backgroundImage s = None)"
    by (auto simp: trim_def)
  have "changeBackground remote' src (bgChangePrompt s) (backgroundImage s) =
      (Inl (Error (ustr ''Failed to change background from AI. The model may have refused to process the request. Check your image and try again.'')),
       [GenerateContentCall (changeBackground_request src (bgChangePrompt s) (backgroundImage s))])"
    using a guard' by (auto simp: changeBackground_def changeBackground_try_def)
  with a guard show "handleGenerateBgChange remote' s =
        (s\<lparr>isBgChangeLoading := False,
           bgChangeError := Some (ustr ''Failed to change background from AI. The model may have refused to process the request. Check your image and try again.''),
           activeFilter := ustr ''none''\<rparr>,
         [ChangeBackgroundCall src (bgChangePrompt s) (backgroundImage s),
          GenerateContentCall (changeBackground_request src (bgChangePrompt s) (backgroundImage s))])"
    by (simp add: handleGenerateBgChange_def error_message_def)
qed

text \<open>
  After the undo of the session, a try-on whose remote call is rejected and a background
  change whose response holds text only: both histories and both cursors stay.
\<close>

theorem failed_generation_keeps_history_witness:
  "tryOnHistory (fst (handleGenerateTryOn remote_rejects looser after_undo)) = tryOnHistory after_undo
   \<and> tryOnHistoryIndex (fst (handleGenerateTryOn remote_rejects looser after_undo)) = 0
   \<and> \<not> isTryOnLoading (fst (handleGenerateTryOn remote_rejects looser after_undo))
   \<and> tryOnError (fst (handleGenerateTryOn remote_rejects looser after_undo)) \<noteq> None
   \<and> bgHistory (fst (handleGenerateBgChange remote_no_image after_undo)) = bgHistory after_undo
   \<and> bgHistoryIndex (fst (handleGenerateBgChange remote_no_image after_undo)) = 0
   \<and> \<not> isBgChangeLoading (fst (handleGenerateBgChange remote_no_image after_undo))
   \<and> bgChangeError (fst (handleGenerateBgChange remote_no_image after_undo)) \<noteq> None"
proof -
  have fields: "modelImage after_undo = Some example_file"
    "clothingImage after_undo = Some example_file" "sourceImage after_undo = Some example_file"
    "tryOnHistoryIndex after_undo = 0" "bgHistoryIndex after_undo = 0"
    by (simp_all add: after_undo_def)
  have prompt: "\<not> list_all isWhiteSpace (bgChangePrompt after_undo)"
    by (simp add: after_undo_def ustr_def isWhiteSpace_def)
  have rejected: "\<exists>rejected. remote_rejects
      (dressModel_request example_file example_file looser (tryOnBackgroundPrompt after_undo)) =
      Inl rejected"
    by (simp add: remote_rejects_def)
  have no_image: "\<exists>response. remote_no_image
      (changeBackground_request example_file (bgChangePrompt after_undo)
         (backgroundImage after_undo)) = Inr response \<and> find_imagePart response = None"
    by (simp add: remote_no_image_def no_image_response_def find_imagePart_def textPart_def)
  show ?thesis
    using failed_generation_keeps_history
        [of after_undo example_file example_file remote_rejects looser example_file
            remote_no_image]
      fields prompt rejected no_image
    by simp
qed

text \<open>
  C6, what the code does. In both client operations the error thrown for a response
  without an image is thrown inside the \<open>try\<close> block, so the \<open>catch\<close> clause of the same
  block replaces it: a response with no inline data and a rejected remote call end in one
  and the same failure, the generic one. The message written for the missing image never
  leaves the operation. A response with an image gives the data of its first part that
  has inline data.
\<close>

theorem no_image_failure_is_not_distinct:
  "fst (dressModel remote_rejects m c fit backgroundPrompt) =
     Inl (Error (ustr ''Failed to generate image from AI. The model may have refused to process the request. Check your images and try again.''))
   \<and> fst (dressModel remote_no_image m c fit backgroundPrompt) =
     fst (dressModel remote_rejects m c fit backgroundPrompt)
   \<and> dressModel_try remote_no_image m c fit backgroundPrompt =
     Inl (Error (ustr ''AI failed to generate an image. Please try again with different images.''))
   \<and> fst (changeBackground remote_rejects src (ustr ''a beach'') bg) =
     Inl (Error (ustr ''Failed to change background from AI. The model may have refused to process the request. Check your image and try again.''))
   \<and> fst (changeBackground remote_no_image src (ustr ''a beach'') bg) =
     fst (changeBackground remote_rejects src (ustr ''a beach'') bg)
   \<and> fst (dressModel (remote_image d) m c fit backgroundPrompt) = Inr d
   \<and> fst (changeBackground (remote_image d) src (ustr ''a beach'') bg) = Inr d"
proof -
  have prompt: "trim (ustr ''a beach'') \<noteq> []" "ustr ''a beach'' \<noteq> []"
    by (simp_all add: trim_def ustr_def isWhiteSpace_def)
  show ?thesis
    using prompt
    by (simp add: dressModel_def dressModel_try_def changeBackground_def changeBackground_try_def
          remote_rejects_def remote_no_image_def remote_image_def no_image_response_def
          image_response_def find_imagePart_def textPart_def)
qed

subsection \<open>The entry stored for a generated image\<close>

text \<open>
  C10. In both workflows the entry appended by a generate that succeeds is the text
  \<open>data:image/png;base64,\<close> followed by the string the generation client returned, and
  that string is the \<open>data\<close> of the response's first part with inline data: the content
  type the response names for it plays no part.
\<close>

theorem appended_entry_is_png_data_url:
  "(modelImage s = Some m \<and> clothingImage s = Some c \<and>
    fst (dressModel remote m c fit (tryOnBackgroundPrompt s)) = Inr generatedImage \<longrightarrow>
      tryOnHistory (fst (handleGenerateTryOn remote fit s)) =
        slice0 (tryOnHistory s) (tryOnHistoryIndex s + 1) @
        [ustr ''data:image/png;base64,'' @ generatedImage])
   \<and> (sourceImage s = Some src \<and>
       \<not> (backgroundImage s = None \<and> list_all isWhiteSpace (bgChangePrompt s)) \<and>
       fst (changeBackground remote' src (bgChangePrompt s) (backgroundImage s)) =
         Inr generatedImage' \<longrightarrow>
      bgHistory (fst (handleGenerateBgChange remote' s)) =
        slice0 (bgHistory s) (bgHistoryIndex s + 1) @
        [ustr ''data:image/png;base64,'' @ generatedImage'])
   \<and> (remote (dressModel_request m c fit backgroundPrompt) = Inr response \<and>
       find_imagePart response = Some part \<and> inlineData part = Some blob \<longrightarrow>
      fst (dressModel remote m c fit backgroundPrompt) = Inr (data blob))
   \<and> (\<not> (bg = None \<and> list_all isWhiteSpace backgroundPrompt) \<and>
       remote' (changeBackground_request src backgroundPrompt bg) = Inr response' \<and>
       find_imagePart response' = Some part' \<and> inlineData part' = Some blob' \<longrightarrow>
      fst (changeBackground remote' src backgroundPrompt bg) = Inr (data blob'))"
proof (intro conjI impI)
  assume "modelImage s = Some m \<and> clothingImage s = Some c \<and>
    fst (dressModel remote m c fit (tryOnBackgroundPrompt s)) = Inr generatedImage"
  then show "tryOnHistory (fst (handleGenerateTryOn remote fit s)) =
        slice0 (tryOnHistory s) (tryOnHistoryIndex s + 1) @
        [ustr ''data:image/png;base64,'' @ generatedImage]"
    using handleGenerateTryOn_success(1) [of s m c remote fit generatedImage] by simp
next
  assume "sourceImage s = Some src \<and>
       \<not> (backgroundImage s = None \<and> list_all isWhiteSpace (bgChangePrompt s)) \<and>
       fst (changeBackground remote' src (bgChangePrompt s) (backgroundImage s)) =
         Inr generatedImage'"
  then show "bgHistory (fst (handleGenerateBgChange remote' s)) =
        slice0 (bgHistory s) (bgHistoryIndex s + 1) @
        [ustr ''data:image/png;base64,'' @ generatedImage']"
    using handleGenerateBgChange_success(1) [of s src remote' generatedImage']
    by (simp add: trim_empty_iff)
next
  assume "remote (dressModel_request m c fit backgroundPrompt) = Inr response \<and>
       find_imagePart response = Some part \<and> inlineData part = Some blob"
  then show "fst (dressModel remote m c fit backgroundPrompt) = Inr (data blob)"
    by (simp add: dressModel_def dressModel_try_def)
next
  assume a: "\<not> (bg = None \<and> list_all isWhiteSpace backgroundPrompt) \<and>
       remote' (changeBackground_request src backgroundPrompt bg) = Inr response' \<and>
       find_imagePart response' = Some part' \<and> inlineData part' = Some blob'"
  then have "\<not> ((backgroundPrompt = [] \<or> length (trim backgroundPrompt) = 0) \<and> bg = None)"
    by (auto simp: trim_empty_iff)
  with a show "fst (changeBackground remote' src backgroundPrompt bg) = Inr (data blob')"
    by (simp add: changeBackground_def changeBackground_try_def)
qed

text \<open>
  The remote capability of the session answers with a part of type \<open>image/jpeg\<close>; the
  entries stored for it start with \<open>data:image/png\<close> all the same.
\<close>

theorem appended_entry_is_png_data_url_witness:
  "tryOnHistory (fst (handleGenerateTryOn (remote_image (ustr ''CCCC'')) looser after_undo)) =
     [ustr ''data:image/png;base64,AAAA'', ustr ''data:image/png;base64,'' @ ustr ''CCCC'']
   \<and> bgHistory (fst (handleGenerateBgChange (remote_image (ustr ''FFFF'')) after_undo)) =
     [ustr ''data:image/png;base64,DDDD'', ustr ''data:image/png;base64,'' @ ustr ''FFFF'']
   \<and> Blob.mimeType (the (inlineData (the (find_imagePart (image_response (ustr ''CCCC'')))))) =
     ustr ''image/jpeg''
   \<and> fst (dressModel (remote_image (ustr ''CCCC'')) example_file example_file looser []) =
     Inr (ustr ''CCCC'')
   \<and> fst (changeBackground (remote_image (ustr ''FFFF'')) example_file (ustr ''a beach'') None) =
     Inr (ustr ''FFFF'')"
proof -
  let ?blob = "\<lambda>d. \<lparr>data = d, mimeType = ustr ''image/jpeg''\<rparr>"
  let ?part = "\<lambda>d. \<lparr>inlineData = Some (?blob d), text' = None\<rparr>"
  have found: "find_imagePart (image_response d) = Some (?part d)" for d
    by (simp add: image_response_def find_imagePart_def textPart_def)
  have fields: "modelImage after_undo = Some example_file"
    "clothingImage after_undo = Some example_file" "sourceImage after_undo = Some example_file"
    "tryOnBackgroundPrompt after_undo = []" "bgChangePrompt after_undo = ustr ''a beach''"
    "backgroundImage after_undo = None"
    "slice0 (tryOnHistory after_undo) (tryOnHistoryIndex after_undo + 1) =
       [ustr ''data:image/png;base64,AAAA'']"
    "slice0 (bgHistory after_undo) (bgHistoryIndex after_undo + 1) =
       [ustr ''data:image/png;base64,DDDD'']"
    by (simp_all add: after_undo_def slice0_def)
  have prompt: "\<not> list_all isWhiteSpace (ustr ''a beach'')"
    by (simp add: ustr_def isWhiteSpace_def)
  have client:
    "fst (dressModel (remote_image (ustr ''CCCC'')) example_file example_file looser []) =
       Inr (ustr ''CCCC'')"
    "fst (changeBackground (remote_image (ustr ''FFFF'')) example_file (ustr ''a beach'') None) =
       Inr (ustr ''FFFF'')"
    using appended_entry_is_png_data_url
        [of _ example_file example_file "remote_image (ustr ''CCCC'')" looser _ _
            "remote_image (ustr ''FFFF'')" _ "[]" "image_response (ustr ''CCCC'')"
            "?part (ustr ''CCCC'')" "?blob (ustr ''CCCC'')" None]
      appended_entry_is_png_data_url
        [of _ _ _ _ _ _ example_file
            "remote_image (ustr ''FFFF'')" _ "ustr ''a beach''" _ _ _ None
            "image_response (ustr ''FFFF'')" "?part (ustr ''FFFF'')" "?blob (ustr ''FFFF'')"]
      found prompt
    by (simp_all add: remote_image_def)
  show ?thesis
    using appended_entry_is_png_data_url
        [of after_undo example_file example_file "remote_image (ustr ''CCCC'')" looser
            "ustr ''CCCC''" example_file "remote_image (ustr ''FFFF'')" "ustr ''FFFF''"]
      client fields prompt found
    by simp
qed

subsection \<open>The history read at startup\<close>

lemma strings_of_length: "strings_of xs = Some es \<Longrightarrow> length es = length xs"
  by (induction xs arbitrary: es rule: strings_of.induct) auto

text \<open>
  What \<open>useHistoryState\<close> starts with when the stored entry list is absent, empty, no JSON
  or a JSON array. In the first three cases the history is empty and the cursor is \<open>-1\<close>.
  For an array the history is that array and the cursor is an integer between \<open>-1\<close> and
  the last index; it is the last index when the array has entries and the stored cursor is
  missing, is not a number, is negative or is not below the number of entries.
\<close>

lemma rehydration_of_arrays:
  "((localStorage historyKey = None \<or> localStorage historyKey = Some [] \<or>
     (\<exists>stored. localStorage historyKey = Some stored \<and> JSON_parse stored = None)) \<longrightarrow>
      useHistoryState_history JSON_parse localStorage historyKey = JArray [] \<and>
      useHistoryState_historyIndex ops JSON_parse localStorage historyKey indexKey = Integer (- 1))
   \<and> (localStorage historyKey = Some stored \<and> stored \<noteq> [] \<and>
       JSON_parse stored = Some (JArray parsed) \<longrightarrow>
      useHistoryState_history JSON_parse localStorage historyKey = JArray parsed \<and>
      (\<exists>i. useHistoryState_historyIndex ops JSON_parse localStorage historyKey indexKey =
             Integer i \<and> - 1 \<le> i \<and> i \<le> int (length parsed) - 1))
   \<and> (localStorage historyKey = Some stored \<and> stored \<noteq> [] \<and>
       JSON_parse stored = Some (JArray parsed) \<and> parsed \<noteq> [] \<and>
       (case localStorage indexKey of
          None \<Rightarrow> True
        | Some storedIndex \<Rightarrow>
            (case parseInt storedIndex of
               None \<Rightarrow> True
             | Some i \<Rightarrow> i < 0 \<or> i \<ge> int (length parsed))) \<longrightarrow>
      useHistoryState_historyIndex ops JSON_parse localStorage historyKey indexKey =
        Integer (int (length parsed) - 1))"
proof -
  have absent: "(localStorage historyKey = None \<or> localStorage historyKey = Some [] \<or>
     (\<exists>stored. localStorage historyKey = Some stored \<and> JSON_parse stored = None)) \<longrightarrow>
      useHistoryState_history JSON_parse localStorage historyKey = JArray [] \<and>
      useHistoryState_historyIndex ops JSON_parse localStorage historyKey indexKey = Integer (- 1)"
    by (auto simp: useHistoryState_history_def useHistoryState_historyIndex_def
          strict_equals_zero_def)
  have array: "localStorage historyKey = Some stored \<and> stored \<noteq> [] \<and>
       JSON_parse stored = Some (JArray parsed) \<longrightarrow>
      useHistoryState_history JSON_parse localStorage historyKey = JArray parsed \<and>
      (\<exists>i. useHistoryState_historyIndex ops JSON_parse localStorage historyKey indexKey =
             Integer i \<and> - 1 \<le> i \<and> i \<le> int (length parsed) - 1)"
    by (auto simp: useHistoryState_history_def useHistoryState_historyIndex_def get_length_def
          strict_equals_zero_def less_than_def minus_one_def Let_def split: option.splits)
  have stale: "localStorage historyKey = Some stored \<and> stored \<noteq> [] \<and>
       JSON_parse stored = Some (JArray parsed) \<and> parsed \<noteq> [] \<and>
       (case localStorage indexKey of
          None \<Rightarrow> True
        | Some storedIndex \<Rightarrow>
            (case parseInt storedIndex of
               None \<Rightarrow> True
             | Some i \<Rightarrow> i < 0 \<or> i \<ge> int (length parsed))) \<longrightarrow>
      useHistoryState_historyIndex ops JSON_parse localStorage historyKey indexKey =
        Integer (int (length parsed) - 1)"
    by (auto simp: useHistoryState_historyIndex_def get_length_def
          strict_equals_zero_def less_than_def minus_one_def Let_def split: option.splits)
  from absent array stale show ?thesis
    by (intro conjI)
qed

text \<open>
  When both stored histories have the declared type and both cursors are integers, the
  first state of the application has its cursors in range; with nothing stored it is the
  empty state.
\<close>

lemma hook_in_range:
  assumes "entries_of (useHistoryState_history JSON_parse localStorage historyKey) = Some es"
    and "useHistoryState_historyIndex ops JSON_parse localStorage historyKey indexKey = Integer i"
  shows "cursor_in_range es i"
proof -
  obtain xs where history: "useHistoryState_history JSON_parse localStorage historyKey = JArray xs"
    and strings: "strings_of xs = Some es"
    using assms(1) by (auto simp: entries_of_def split: json.splits)
  have same_length: "length es = length xs"
    using strings by (rule strings_of_length)
  show ?thesis
  proof (cases "localStorage historyKey = None \<or> localStorage historyKey = Some [] \<or>
     (\<exists>stored. localStorage historyKey = Some stored \<and> JSON_parse stored = None)")
    case True
    then have "useHistoryState_history JSON_parse localStorage historyKey = JArray [] \<and>
      useHistoryState_historyIndex ops JSON_parse localStorage historyKey indexKey = Integer (- 1)"
      using rehydration_of_arrays [of localStorage historyKey JSON_parse ops indexKey] by blast
    with history assms(2) same_length show ?thesis
      by (simp add: cursor_in_range_def)
  next
    case False
    then obtain stored v where stored: "localStorage historyKey = Some stored" "stored \<noteq> []"
      "JSON_parse stored = Some v"
      by (cases "localStorage historyKey") auto
    with history have "v = JArray xs"
      by (simp add: useHistoryState_history_def)
    with stored have "\<exists>j. useHistoryState_historyIndex ops JSON_parse localStorage historyKey
        indexKey = Integer j \<and> - 1 \<le> j \<and> j \<le> int (length xs) - 1"
      using rehydration_of_arrays [of localStorage historyKey JSON_parse ops indexKey stored xs]
      by blast
    with assms(2) same_length show ?thesis
      by (auto simp: cursor_in_range_def)
  qed
qed

lemma App_init_ok: "App_init ops JSON_parse localStorage = Some s \<Longrightarrow> histories_ok s"
  by (auto simp: App_init_def histories_ok_def hook_in_range
        split: option.splits number.splits)

lemma App_init_empty: "App_init ops JSON_parse Map.empty = Some empty_state"
  by (simp add: App_init_def useHistoryState_history_def useHistoryState_historyIndex_def
        strict_equals_zero_def entries_of_def empty_state_def)

text \<open>
  C7, what the code does. A stored entry list that is no JSON degrades to the empty
  history, and a stored list of two entries with the cursor 7 gets the cursor 1. But only
  the failure of \<open>JSON.parse\<close> is caught: a stored text that is JSON and no array is
  returned as the history. For \<open>{}\<close> the history is that object, not the empty list, its
  \<open>length\<close> is \<open>undefined\<close> and the cursor is NaN; for \<open>null\<close> the history is \<open>null\<close>
  and the cursor \<open>-1\<close>. Neither is a history of the declared type with a cursor in its
  range, so the typed first state does not exist.
\<close>

theorem rehydration_keeps_non_arrays:
  \<open>useHistoryState_history example_parse corrupt_store TRYON_HISTORY_KEY = JArray []
   \<and> useHistoryState_historyIndex ops example_parse corrupt_store
        TRYON_HISTORY_KEY TRYON_HISTORY_INDEX_KEY = Integer (- 1)
   \<and> useHistoryState_history example_parse stale_store TRYON_HISTORY_KEY =
        JArray [JString (ustr ''x''), JString (ustr ''y'')]
   \<and> useHistoryState_historyIndex ops example_parse stale_store
        TRYON_HISTORY_KEY TRYON_HISTORY_INDEX_KEY = Integer 1
   \<and> object_store TRYON_HISTORY_KEY = Some (ustr ''{}'')
   \<and> example_parse (ustr ''{}'') = Some (JObject [])
   \<and> useHistoryState_history example_parse object_store TRYON_HISTORY_KEY = JObject []
   \<and> useHistoryState_historyIndex ops example_parse object_store
        TRYON_HISTORY_KEY TRYON_HISTORY_INDEX_KEY = NaN
   \<and> null_store TRYON_HISTORY_KEY = Some (ustr ''null'')
   \<and> example_parse (ustr ''null'') = Some JNull
   \<and> useHistoryState_history example_parse null_store TRYON_HISTORY_KEY = JNull
   \<and> useHistoryState_historyIndex ops example_parse null_store
        TRYON_HISTORY_KEY TRYON_HISTORY_INDEX_KEY = Integer (- 1)
   \<and> App_init ops example_parse object_store = None
   \<and> App_init ops example_parse null_store = None\<close>
proof -
  have keys: "TRYON_HISTORY_INDEX_KEY \<noteq> TRYON_HISTORY_KEY"
    by (simp add: TRYON_HISTORY_KEY_def TRYON_HISTORY_INDEX_KEY_def ustr_def)
  have stored:
    \<open>corrupt_store TRYON_HISTORY_KEY = Some (ustr ''["x",'')\<close>
    \<open>corrupt_store TRYON_HISTORY_INDEX_KEY = Some (ustr ''0'')\<close>
    \<open>stale_store TRYON_HISTORY_KEY = Some (ustr ''["x","y"]'')\<close>
    \<open>stale_store TRYON_HISTORY_INDEX_KEY = Some (ustr ''7'')\<close>
    \<open>object_store TRYON_HISTORY_KEY = Some (ustr ''{}'')\<close>
    \<open>object_store TRYON_HISTORY_INDEX_KEY = Some (ustr ''0'')\<close>
    \<open>null_store TRYON_HISTORY_KEY = Some (ustr ''null'')\<close>
    \<open>null_store TRYON_HISTORY_INDEX_KEY = Some (ustr ''0'')\<close>
    using keys
    by (simp_all add: corrupt_store_def stale_store_def object_store_def null_store_def)
  have parsed:
    \<open>example_parse (ustr ''["x",'') = None\<close>
    \<open>example_parse (ustr ''["x","y"]'') = Some (JArray [JString (ustr ''x''), JString (ustr ''y'')])\<close>
    \<open>example_parse (ustr ''{}'') = Some (JObject [])\<close>
    \<open>example_parse (ustr ''null'') = Some JNull\<close>
    by (simp_all add: example_parse_def ustr_def)
  have texts: \<open>ustr ''["x",'' \<noteq> []\<close> \<open>ustr ''["x","y"]'' \<noteq> []\<close> \<open>ustr ''{}'' \<noteq> []\<close>
    \<open>ustr ''null'' \<noteq> []\<close> \<open>ustr ''0'' \<noteq> []\<close> \<open>ustr ''7'' \<noteq> []\<close>
    by (simp_all add: ustr_def)
  have cursors: "parseInt (ustr ''0'') = Some 0" "parseInt (ustr ''7'') = Some 7"
    by (simp_all add: parseInt_def ustr_def isWhiteSpace_def isDigit_def digitsValue_def)
  have histories:
    \<open>useHistoryState_history example_parse corrupt_store TRYON_HISTORY_KEY = JArray []\<close>
    \<open>useHistoryState_history example_parse stale_store TRYON_HISTORY_KEY =
       JArray [JString (ustr ''x''), JString (ustr ''y'')]\<close>
    \<open>useHistoryState_history example_parse object_store TRYON_HISTORY_KEY = JObject []\<close>
    \<open>useHistoryState_history example_parse null_store TRYON_HISTORY_KEY = JNull\<close>
    by (simp_all add: useHistoryState_history_def stored parsed texts)
  have indices:
    \<open>useHistoryState_historyIndex ops example_parse corrupt_store
       TRYON_HISTORY_KEY TRYON_HISTORY_INDEX_KEY = Integer (- 1)\<close>
    \<open>useHistoryState_historyIndex ops example_parse stale_store
       TRYON_HISTORY_KEY TRYON_HISTORY_INDEX_KEY = Integer 1\<close>
    \<open>useHistoryState_historyIndex ops example_parse object_store
       TRYON_HISTORY_KEY TRYON_HISTORY_INDEX_KEY = NaN\<close>
    \<open>useHistoryState_historyIndex ops example_parse null_store
       TRYON_HISTORY_KEY TRYON_HISTORY_INDEX_KEY = Integer (- 1)\<close>
    by (simp_all add: useHistoryState_historyIndex_def stored parsed texts cursors get_length_def
          strict_equals_zero_def less_than_def minus_one_def)
  have no_state: "App_init ops example_parse object_store = None"
    "App_init ops example_parse null_store = None"
    by (simp_all add: App_init_def histories entries_of_def)
  show ?thesis
    using stored(5,7) parsed(3,4) histories indices no_state
    by (intro conjI)
qed

subsection \<open>The instruction texts\<close>

text \<open>
  Literals are compared as texts: \<open>ustr\<close> is injective, and it keeps what a text
  contains. A text made of lines contains a pattern without line break only inside one of
  the lines.
\<close>

lemma unat_of_char: "unat (of_char c :: 16 word) = of_char c"
proof -
  have "(of_char c :: 16 word) = of_nat (of_char c)"
    by (simp add: of_nat_of_char)
  then have "unat (of_char c :: 16 word) = (of_char c :: nat) mod 2 ^ 16"
    by (simp add: unat_of_nat)
  also have "\<dots> = of_char c"
  proof -
    have "(of_char c :: nat) < 65536"
      using nat_of_char_less_256 [of c] by linarith
    then show ?thesis
      by simp
  qed
  finally show ?thesis .
qed

lemma inj_of_char16: "inj (of_char :: char \<Rightarrow> 16 word)"
proof (rule injI)
  fix a b :: char
  assume "(of_char a :: 16 word) = of_char b"
  then have "unat (of_char a :: 16 word) = unat (of_char b :: 16 word)"
    by simp
  then have "(of_char a :: nat) = of_char b"
    by (simp only: unat_of_char)
  then show "a = b"
    by simp
qed

lemma ustr_eq_iff: "ustr a = ustr b \<longleftrightarrow> a = b"
  by (simp add: ustr_def inj_of_char16)

lemma ustr_append: "ustr (a @ b) = ustr a @ ustr b"
  by (simp add: ustr_def)

lemma sublist_ustr: "sublist (ustr p) (ustr t) \<longleftrightarrow> sublist p t"
proof
  assume "sublist (ustr p) (ustr t)"
  then have "sublist (map of_char p :: jsstring) (map of_char t)"
    by (simp add: ustr_def)
  then obtain p' where "sublist p' t" "(map of_char p :: jsstring) = map of_char p'"
    using sublist_map_rightE by blast
  then show "sublist p t"
    using inj_of_char16 by simp
next
  assume "sublist p t"
  then show "sublist (ustr p) (ustr t)"
    unfolding ustr_def by (rule map_mono_sublist)
qed

lemma prefix_ustr: "prefix p t \<Longrightarrow> prefix (ustr p) (ustr t)"
  by (auto simp: prefix_def ustr_def)

lemma suffix_ustr: "suffix p t \<Longrightarrow> suffix (ustr p) (ustr t)"
  by (auto simp: suffix_def ustr_def)

lemma sublist_line_split:
  assumes "l \<noteq> []" and "last l \<notin> set p"
  shows "sublist p (l @ b) \<longleftrightarrow> sublist p l \<or> sublist p b"
proof
  assume "sublist p (l @ b)"
  then consider "sublist p l" | "sublist p b"
    | p1 p2 where "p = p1 @ p2" "suffix p1 l" "prefix p2 b"
    by (auto simp: sublist_append)
  then show "sublist p l \<or> sublist p b"
  proof cases
    case 3
    show ?thesis
    proof (cases "p1 = []")
      case True
      with 3 show ?thesis
        by auto
    next
      case False
      from 3 obtain zs where "l = zs @ p1"
        by (auto simp: suffix_def)
      with False have "last l = last p1"
        by simp
      with False 3 have "last l \<in> set p"
        by simp
      with assms show ?thesis
        by simp
    qed
  qed auto
next
  assume "sublist p l \<or> sublist p b"
  then show "sublist p (l @ b)"
    by (auto simp: sublist_append)
qed

lemma image_variant_marker:
  \<open>sublist (ustr ''replace the background of the first image (the source) with the second image (the new background)'')
     changeBackground_image_template_1\<close>
  unfolding changeBackground_image_template_1_def sublist_ustr
  apply (simp only: sublist_line_split last.simps list.distinct list.set insert_iff empty_iff
      char.inject if_False if_True simp_thms)
  by code_simp

lemma image_variant_heading:
  \<open>sublist (ustr ''4.  **Additional Instructions:** '') changeBackground_image_template_1\<close>
  unfolding changeBackground_image_template_1_def sublist_ustr
  apply (simp only: sublist_line_split last.simps list.distinct list.set insert_iff empty_iff
      char.inject if_False if_True simp_thms)
  by code_simp

lemma image_variant_default_has_no_user_clause:
  \<open>\<not> sublist (ustr ''Follow these additional user instructions'')
       (changeBackground_image_template_1 @
        ustr ''Ensure the composition is natural and believable.'' @
        changeBackground_image_template_2)\<close>
  unfolding changeBackground_image_template_1_def changeBackground_image_template_2_def
    ustr_append [symmetric] sublist_ustr append_assoc
  apply (simp only: sublist_line_split last.simps list.distinct list.set insert_iff empty_iff
      char.inject if_False if_True simp_thms)
  by code_simp

lemma text_variant_before_hole:
  \<open>suffix (ustr ''based on this description: "'') changeBackground_text_template_1\<close>
  unfolding changeBackground_text_template_1_def
  apply (rule suffix_ustr)
  apply (rule suffix_appendI)+
  by code_simp

lemma text_variant_after_hole:
  \<open>prefix (ustr ''".'') changeBackground_text_template_2\<close>
  unfolding changeBackground_text_template_2_def
  apply (rule prefix_ustr)
  apply (rule prefix_prefix)
  by code_simp

lemma text_variant_embeds_prompt:
  \<open>sublist (ustr ''based on this description: "'' @ backgroundPrompt @ ustr ''".'')
     (changeBackground_text_template_1 @ backgroundPrompt @ changeBackground_text_template_2)\<close>
proof -
  obtain before where b: \<open>changeBackground_text_template_1 =
      before @ ustr ''based on this description: "''\<close>
    using text_variant_before_hole by (auto simp: suffix_def)
  obtain after where a: \<open>changeBackground_text_template_2 = ustr ''".'' @ after\<close>
    using text_variant_after_hole by (auto simp: prefix_def)
  have \<open>changeBackground_text_template_1 @ backgroundPrompt @ changeBackground_text_template_2 =
      before @ (ustr ''based on this description: "'' @ backgroundPrompt @ ustr ''".'') @ after\<close>
    by (simp add: a b)
  then show ?thesis
    by (simp only: sublist_appendI)
qed

text \<open>
  C8. The parts that \<open>changeBackground\<close> sends, for every prompt and every choice of
  background image. With a background image: the source image, the background image, then
  the text, in this order; the text is the one that tells to replace the background with
  the second image, and its fourth instruction quotes the user's prompt when the prompt is
  not empty and is a fixed sentence otherwise. Without a background image: the source image,
  then the text that tells to generate a background from the description, with the prompt
  quoted in it. With a background image and the empty prompt the operation passes its guard
  and sends exactly source, background image and text, and the text does not hold the
  clause that introduces user instructions. (The heading of the fourth instruction belongs
  to the fixed template and stands in the text in both cases; with the empty prompt it is
  followed by the fixed sentence.) An image part carries the data and the content type of
  its file and no text; the text part carries the text and no inline data.
\<close>

theorem background_change_parts:
  \<open>changeBackground_parts src backgroundPrompt (Some bg) =
     [inlinePart src, inlinePart bg,
      textPart (changeBackground_image_template_1 @
        (if backgroundPrompt = [] then ustr ''Ensure the composition is natural and believable.''
         else ustr ''Follow these additional user instructions for blending: "'' @
              backgroundPrompt @ ustr ''"'') @
        changeBackground_image_template_2)]
   \<and> changeBackground_parts src backgroundPrompt None =
     [inlinePart src,
      textPart (changeBackground_text_template_1 @ backgroundPrompt @
                changeBackground_text_template_2)]
   \<and> sublist (ustr ''replace the background of the first image (the source) with the second image (the new background)'')
        changeBackground_image_template_1
   \<and> sublist (ustr ''4.  **Additional Instructions:** '') changeBackground_image_template_1
   \<and> sublist (ustr ''based on this description: "'' @ backgroundPrompt @ ustr ''".'')
        (changeBackground_text_template_1 @ backgroundPrompt @ changeBackground_text_template_2)
   \<and> changeBackground_parts src [] (Some bg) =
     [inlinePart src, inlinePart bg,
      textPart (changeBackground_image_template_1 @
                ustr ''Ensure the composition is natural and believable.'' @
                changeBackground_image_template_2)]
   \<and> \<not> sublist (ustr ''Follow these additional user instructions'')
         (changeBackground_image_template_1 @
          ustr ''Ensure the composition is natural and believable.'' @
          changeBackground_image_template_2)
   \<and> contents (changeBackground_request src backgroundPrompt anyImage) =
     \<lparr>parts = Some (changeBackground_parts src backgroundPrompt anyImage)\<rparr>
   \<and> snd (changeBackground remote src [] (Some bg)) =
     [GenerateContentCall (changeBackground_request src [] (Some bg))]
   \<and> inlinePart file =
     \<lparr>inlineData = Some \<lparr>data = base64 file, Blob.mimeType = Base64File.mimeType file\<rparr>,
      text' = None\<rparr>
   \<and> textPart anyText = \<lparr>inlineData = None, text' = Some anyText\<rparr>\<close>
proof -
  have inline: "inlinePart file =
     \<lparr>inlineData = Some \<lparr>data = base64 file, Blob.mimeType = Base64File.mimeType file\<rparr>,
      text' = None\<rparr>"
    by (simp add: inlinePart_def)
  have text_only: "textPart anyText = \<lparr>inlineData = None, text' = Some anyText\<rparr>"
    by (simp add: textPart_def)
  have with_image: \<open>changeBackground_parts src prompt (Some bg) =
     [inlinePart src, inlinePart bg,
      textPart (changeBackground_image_template_1 @
        (if prompt = [] then ustr ''Ensure the composition is natural and believable.''
         else ustr ''Follow these additional user instructions for blending: "'' @
              prompt @ ustr ''"'') @
        changeBackground_image_template_2)]\<close> for prompt
    by (simp add: changeBackground_parts_def)
  have without_image: \<open>changeBackground_parts src backgroundPrompt None =
     [inlinePart src,
      textPart (changeBackground_text_template_1 @ backgroundPrompt @
                changeBackground_text_template_2)]\<close>
    by (simp add: changeBackground_parts_def)
  have empty_prompt: \<open>changeBackground_parts src [] (Some bg) =
     [inlinePart src, inlinePart bg,
      textPart (changeBackground_image_template_1 @
                ustr ''Ensure the composition is natural and believable.'' @
                changeBackground_image_template_2)]\<close>
    using with_image [of "[]"] by simp
  have request: \<open>contents (changeBackground_request src backgroundPrompt anyImage) =
     \<lparr>parts = Some (changeBackground_parts src backgroundPrompt anyImage)\<rparr>\<close>
    by (simp add: changeBackground_request_def)
  have sent: \<open>snd (changeBackground remote src [] (Some bg)) =
     [GenerateContentCall (changeBackground_request src [] (Some bg))]\<close>
    by (simp add: changeBackground_def)
  show ?thesis
    using with_image [of backgroundPrompt] without_image image_variant_marker
      image_variant_heading text_variant_embeds_prompt empty_prompt
      image_variant_default_has_no_user_clause
      request sent inline text_only
    by (intro conjI)
qed

text \<open>
  C9. The instruction text of \<open>dressModel\<close> depends on the fit and on the background
  prompt only, and it is the fixed template with one clause in each of its two holes. The
  background clause asks to preserve the original background when the prompt is empty or
  holds white space only, and otherwise asks to replace it, quoting the prompt as it was
  typed. The fit clause is empty for the default fit, the form-fitting sentence for
  \<open>tighter\<close> and the relaxed sentence for \<open>looser\<close>. The three fit clauses differ, so
  two fits never give the same text, and the preserving clause is never a replacing one.
  The text part of the request is this text, whatever the two images are.
\<close>

theorem tryOn_prompt_clauses:
  \<open>dressModel_prompt fit backgroundPrompt =
     dressModel_template_1 @
     (if list_all isWhiteSpace backgroundPrompt then
        ustr ''The original background from the first image must be preserved perfectly.''
      else
        ustr ''The original background must be replaced with a new one described as: "'' @
        backgroundPrompt @
        ustr ''". The new background should be photorealistic and blend seamlessly with the model.'') @
     dressModel_template_2 @
     (case fit of
        default_fit \<Rightarrow> []
      | tighter \<Rightarrow>
          ustr ''The clothing should be adjusted to have a tighter, more form-fitting appearance on the model.''
      | looser \<Rightarrow>
          ustr ''The clothing should be adjusted to have a looser, more relaxed, and comfortable fit on the model.'') @
     dressModel_template_3
   \<and> (dressModel_prompt fit backgroundPrompt = dressModel_prompt fit' backgroundPrompt
        \<longleftrightarrow> fit = fit')
   \<and> ustr ''The original background from the first image must be preserved perfectly.'' \<noteq>
       ustr ''The original background must be replaced with a new one described as: "'' @
       anyPrompt @
       ustr ''". The new background should be photorealistic and blend seamlessly with the model.''
   \<and> contents (dressModel_request m c fit backgroundPrompt) =
       \<lparr>parts = Some [inlinePart m, inlinePart c,
                       textPart (dressModel_prompt fit backgroundPrompt)]\<rparr>\<close>
proof -
  let ?fitClause = \<open>\<lambda>f. case f of
        default_fit \<Rightarrow> []
      | tighter \<Rightarrow>
          ustr ''The clothing should be adjusted to have a tighter, more form-fitting appearance on the model.''
      | looser \<Rightarrow>
          ustr ''The clothing should be adjusted to have a looser, more relaxed, and comfortable fit on the model.''\<close>
  have trimmed: "(backgroundPrompt \<noteq> [] \<and> length (trim backgroundPrompt) > 0) \<longleftrightarrow>
      \<not> list_all isWhiteSpace backgroundPrompt"
    using trim_empty_iff [of backgroundPrompt] by auto
  have shape: \<open>dressModel_prompt f backgroundPrompt =
     dressModel_template_1 @
     (if list_all isWhiteSpace backgroundPrompt then
        ustr ''The original background from the first image must be preserved perfectly.''
      else
        ustr ''The original background must be replaced with a new one described as: "'' @
        backgroundPrompt @
        ustr ''". The new background should be photorealistic and blend seamlessly with the model.'') @
     dressModel_template_2 @ ?fitClause f @ dressModel_template_3\<close> for f
    unfolding dressModel_prompt_def Let_def trimmed
    by (cases f) (simp_all add: ustr_def)
  have clauses_differ: "?fitClause f = ?fitClause f' \<longleftrightarrow> f = f'" for f f'
    by (cases f; cases f') (simp_all add: ustr_def)
  have injective: "dressModel_prompt fit backgroundPrompt = dressModel_prompt fit' backgroundPrompt
      \<longleftrightarrow> fit = fit'"
    unfolding shape [of fit] shape [of fit']
    using clauses_differ [of fit fit'] by simp
  have two_clauses:
    \<open>ustr ''The original background from the first image must be preserved perfectly.'' \<noteq>
       ustr ''The original background must be replaced with a new one described as: "'' @
       anyPrompt @
       ustr ''". The new background should be photorealistic and blend seamlessly with the model.''\<close>
    by (simp add: ustr_def)
  have request: \<open>contents (dressModel_request m c fit backgroundPrompt) =
       \<lparr>parts = Some [inlinePart m, inlinePart c,
                       textPart (dressModel_prompt fit backgroundPrompt)]\<rparr>\<close>
    by (simp add: dressModel_request_def)
  show ?thesis
    using shape [of fit] injective two_clauses request
    by (intro conjI)
qed

end
